theory Spec2Isabelle
  imports Complex_Main "HOL-Library.Sublist"
begin

section \<open>Strings\<close>

text \<open>
  A JavaScript string is a sequence of UTF-16 code units. The model is \<open>string\<close>
  (a list of \<open>char\<close>), each \<open>char\<close> standing for the code unit with the same number,
  so the utterances covered are those over U+0000..U+00FF. On that range
  \<^verbatim>\<open>toLowerCase\<close> maps A..Z and the accented capitals U+00C0..U+00DE (without the
  multiplication sign U+00D7) to the code unit 32 above, and the white space removed by
  \<^verbatim>\<open>trim\<close> and matched by \<^verbatim>\<open>\s\<close> is U+0009..U+000D, U+0020 and U+00A0.
\<close>

definition toLowerCase_char :: "char \<Rightarrow> char" where
  "toLowerCase_char c =
     (let n = (of_char c :: nat)
      in if (65 \<le> n \<and> n \<le> 90) \<or> (192 \<le> n \<and> n \<le> 222 \<and> n \<noteq> 215)
         then char_of (n + 32) else c)"

definition toLowerCase :: "string \<Rightarrow> string" where
  "toLowerCase s = map toLowerCase_char s"

definition is_space :: "char \<Rightarrow> bool" where
  "is_space c = (c \<in> set [CHR 0x09, CHR 0x0A, CHR 0x0B, CHR 0x0C, CHR 0x0D, CHR 0x20, CHR 0xA0])"

definition trim :: "string \<Rightarrow> string" where
  "trim s = rev (dropWhile is_space (rev (dropWhile is_space s)))"

text \<open>\<^verbatim>\<open>s.split(' ')\<close>: a new token starts after every single space, so two adjacent
  spaces enclose an empty token, and the empty string gives one empty token.\<close>

fun split_space :: "string \<Rightarrow> string list" where
  "split_space [] = [[]]"
| "split_space (c # cs) =
     (if c = CHR '' '' then [] # split_space cs
      else (c # hd (split_space cs)) # tl (split_space cs))"

text \<open>\<^verbatim>\<open>s.includes(t)\<close>: \<open>t\<close> occurs in \<open>s\<close> as a contiguous run.\<close>

fun includes_str :: "string \<Rightarrow> string \<Rightarrow> bool" where
  "includes_str [] t = (t = [])"
| "includes_str (c # cs) t = (prefix t (c # cs) \<or> includes_str cs t)"

section \<open>Objects with string keys\<close>

text \<open>
  A JavaScript object whose keys are names keeps them in insertion order: an association
  list. Assigning to a key that is present replaces its value in place, and assigning to
  an absent key appends it.
\<close>

type_synonym 'v obj = "(string \<times> 'v) list"

fun obj_set :: "string \<Rightarrow> 'v \<Rightarrow> 'v obj \<Rightarrow> 'v obj" where
  "obj_set k v [] = [(k, v)]"
| "obj_set k v (p # ps) = (if fst p = k then (k, v) # ps else p # obj_set k v ps)"

text \<open>\<^verbatim>\<open>scores[k] += n\<close> for a key of the score table.\<close>

fun obj_add :: "string \<Rightarrow> int \<Rightarrow> int obj \<Rightarrow> int obj" where
  "obj_add k n [] = []"
| "obj_add k n (p # ps) = (if fst p = k then (k, snd p + n) # ps else p # obj_add k n ps)"

section \<open>IntentClassifier\<close>

datatype error = TypeError

record intent =
  name :: string
  confidence :: rat
  scores :: "int obj"

text \<open>The keyword table of the constructor. The object literal names
  \<^verbatim>\<open>get_recommendations\<close>, \<^verbatim>\<open>explain_concept\<close>, \<^verbatim>\<open>industry_specific\<close>,
  \<^verbatim>\<open>compliance_standards\<close>, \<^verbatim>\<open>cost_analysis\<close> and \<^verbatim>\<open>reduction_strategies\<close>
  twice: such a key keeps the place of its first occurrence and the value of its last.\<close>

definition intents_init :: "string list obj" where
  "intents_init =
   [(''greeting'',
      [''hello'', ''hi'', ''hey'', ''good morning'', ''good afternoon'', ''good evening'',
       ''greetings'', ''welcome'', ''start'', ''begin'', ''sup'', ''howdy'']),
    (''goodbye'',
      [''bye'', ''goodbye'', ''see you'', ''farewell'', ''exit'', ''quit'', ''leave'',
       ''thank you'', ''thanks'', ''done'']),
    (''basic_concepts'',
      [''what is'', ''define'', ''explain'', ''meaning of'', ''carbon footprint'',
       ''emission factor'', ''scope 1'', ''scope 2'', ''scope 3'', ''renewable energy'',
       ''greenhouse gas'', ''co2'', ''sustainability'', ''climate change'']),
    (''calculator_usage'',
      [''how do i enter'', ''how to add'', ''how to input'', ''data entry'',
       ''energy usage'', ''travel data'', ''waste management'', ''fuel types'',
       ''remote work'', ''employee data'', ''usage calculator'']),
    (''industry_benchmarks'',
      [''benchmark'', ''compare'', ''industry average'', ''performance'',
       ''technology companies'', ''manufacturers'', ''retail sector'',
       ''how does my company'', ''average carbon footprint'']),
    (''recommendations'',
      [''how can i reduce'', ''reduce carbon'', ''best practices'', ''quick wins'',
       ''energy savings'', ''travel emissions'', ''scope 3 reduction'',
       ''renewable energy transition'', ''carbon reduction strategies'']),
    (''advanced_analytics'',
      [''projected'', ''prediction'', ''forecast'', ''next year'', ''future'',
       ''electric vehicles'', ''reduction potential'', ''money save'',
       ''carbon neutrality'', ''milestones'', ''targets'']),
    (''ai_ml_features'',
      [''ai improve'', ''machine learning'', ''ml models'', ''confidence scores'',
       ''ai recommend'', ''system learn'', ''algorithms'', ''artificial intelligence'',
       ''how does ai'', ''neural network'']),
    (''reporting_tracking'',
      [''track emissions'', ''monthly tracking'', ''breakdown'', ''report'',
       ''science-based targets'', ''emissions by source'', ''carbon reporting'']),
    (''industry_specific'',
      [''manufacturing'', ''retail'', ''technology'', ''healthcare'', ''finance'',
       ''automotive'', ''aviation'', ''construction'', ''agriculture'']),
    (''general_info'',
      [''who made'', ''ecoleaf analytics'', ''demo'', ''sustainability goals'',
       ''cost of carbon'', ''about this'', ''company information'']),
    (''calculate_carbon'',
      [''calculate'', ''footprint'', ''emissions'', ''carbon'', ''co2'', ''compute'',
       ''estimate'', ''measure'', ''assessment'', ''audit'']),
    (''get_recommendations'',
      [''recommend'', ''suggest'', ''advice'', ''tips'', ''best practices'',
       ''improve'', ''reduce'', ''optimize'', ''strategies'']),
    (''explain_concept'',
      [''what is'', ''explain'', ''define'', ''meaning'', ''understand'',
       ''how does'', ''why'', ''difference between'']),
    (''compliance_standards'',
      [''ghg protocol'', ''iso 14064'', ''sbti'', ''tcfd'', ''cdp'',
       ''compliance'', ''regulation'', ''standard'', ''reporting'']),
    (''cost_analysis'',
      [''cost'', ''price'', ''investment'', ''roi'', ''savings'', ''budget'',
       ''financial'', ''economic'', ''payback'']),
    (''reduction_strategies'',
      [''reduce'', ''decrease'', ''lower'', ''cut'', ''minimize'',
       ''strategy'', ''plan'', ''roadmap'', ''targets''])]"

definition greeting_words :: "string list" where
  "greeting_words = [''hello'', ''hi'', ''hey'', ''sup'', ''howdy'']"

definition goodbye_words :: "string list" where
  "goodbye_words = [''bye'', ''goodbye'', ''thanks'', ''thank'']"

text \<open>The special handling of short greetings and goodbyes.\<close>

definition special_scores :: "string list \<Rightarrow> int obj \<Rightarrow> int obj" where
  "special_scores words sc =
     (if length words \<le> 2 then
        (let firstWord = hd words;
             sc1 = (if firstWord \<in> set greeting_words then obj_set ''greeting'' 100 sc else sc)
         in if firstWord \<in> set goodbye_words then obj_set ''goodbye'' 100 sc1 else sc1)
      else sc)"

text \<open>The body of \<^verbatim>\<open>keywords.forEach\<close> for one keyword of one intent: the phrase match,
  then one point for every token longer than two characters that occurs in the keyword.\<close>

definition keyword_points :: "string \<Rightarrow> string list \<Rightarrow> string \<Rightarrow> int" where
  "keyword_points cleanMessage words keyword =
     (let keywordLower = toLowerCase keyword
      in (if includes_str cleanMessage keywordLower
          then int (length (split_space keywordLower)) * 3 else 0)
         + int (length (filter (\<lambda>word. includes_str keywordLower word \<and> length word > 2) words)))"

definition score_keyword :: "string \<Rightarrow> string list \<Rightarrow> string \<Rightarrow> string \<Rightarrow> int obj \<Rightarrow> int obj" where
  "score_keyword cleanMessage words intentKey keyword sc =
     obj_add intentKey (keyword_points cleanMessage words keyword) sc"

definition score_intent :: "string \<Rightarrow> string list \<Rightarrow> string \<times> string list \<Rightarrow> int obj \<Rightarrow> int obj" where
  "score_intent cleanMessage words entry sc =
     fold (score_keyword cleanMessage words (fst entry)) (snd entry) sc"

text \<open>\<^verbatim>\<open>Object.entries(scores).reduce((a, b) => scores[a[0]] > scores[b[0]] ? a : b)\<close>:
  the accumulator starts at the first entry and is kept only while strictly greater;
  without a first entry \<^verbatim>\<open>reduce\<close> throws. The keys of \<open>scores\<close> are distinct, so
  \<^verbatim>\<open>scores[a[0]]\<close> is the second component of \<open>a\<close>.\<close>

definition bestIntent :: "int obj \<Rightarrow> error + (string \<times> int)" where
  "bestIntent sc =
     (case sc of
        [] \<Rightarrow> Inl TypeError
      | e # es \<Rightarrow> Inr (fold (\<lambda>b a. if snd a > snd b then a else b) es e))"

text \<open>The confidence of a winning score. JavaScript computes it in binary floating
  point; the model computes with exact rationals, so \<open>7 / 10 + 6 * (2 / 100)\<close> is
  exactly \<open>82 / 100\<close>. The constants 0.95, 0.9, 0.7, 0.5 and 0.2 and the comparison
  with 0.3 are the same in both.\<close>

definition confidence_of :: "int \<Rightarrow> rat" where
  "confidence_of score =
     (if score \<ge> 100 then 95 / 100
      else if score > 5 then min (9 / 10) (7 / 10 + of_int score * (2 / 100))
      else if score > 0 then min (7 / 10) (4 / 10 + of_int score * (1 / 10))
      else 2 / 10)"

definition all_scores :: "string list obj \<Rightarrow> string \<Rightarrow> int obj" where
  "all_scores table message =
     (let cleanMessage = trim (toLowerCase message);
          words = split_space cleanMessage;
          sc0 = map (\<lambda>entry. (fst entry, 0)) table;
          sc1 = special_scores words sc0
      in fold (score_intent cleanMessage words) table sc1)"

definition classify :: "string list obj \<Rightarrow> string \<Rightarrow> error + intent" where
  "classify table message =
     (let sc = all_scores table message
      in case bestIntent sc of
           Inl e \<Rightarrow> Inl e
         | Inr best \<Rightarrow>
             (let conf = confidence_of (snd best);
                  intentName = (if snd best = 0 \<or> conf < 3 / 10 then ''unknown'' else fst best)
              in Inr \<lparr>name = intentName, confidence = conf, scores = sc\<rparr>))"


text \<open>\<^verbatim>\<open>reinforcePattern\<close>: the tokens of the lowercased message longer than three
  characters are appended, in order and without repeats, to the keyword list of the named
  intent. A name that is no key of the table changes nothing.\<close>

definition reinforcePattern :: "string list obj \<Rightarrow> string \<Rightarrow> string \<Rightarrow> string list obj" where
  "reinforcePattern table message intentName =
     (let words = split_space (toLowerCase message);
          relevantWords = filter (\<lambda>word. length word > 3) words
      in case map_of table intentName of
           None \<Rightarrow> table
         | Some keywords \<Rightarrow>
             if relevantWords = [] then table
             else obj_set intentName
                    (fold (\<lambda>word kws. if word \<in> set kws then kws else kws @ [word])
                       relevantWords keywords) table)"

section \<open>EntityExtractor\<close>

record entity =
  type :: string
  "value" :: string
  entity_confidence :: rat

text \<open>
  The regular expressions of the pattern table use character classes, literals,
  sequence, alternation and greedy repetition. \<open>rmatch r s\<close> lists what is left of \<open>s\<close>
  after each way \<open>r\<close> can match at its start, in the order backtracking tries them: the
  first alternative before the second, one more round of a repetition before stopping.
  A round of a repetition that consumes nothing is not taken. All patterns carry the
  flag \<^verbatim>\<open>i\<close>, so a literal is compared up to case.
\<close>

datatype regex =
    Class "char \<Rightarrow> bool"
  | Lit string
  | Cat regex regex
  | Alt regex regex
  | Star regex

fun rmatch :: "regex \<Rightarrow> string \<Rightarrow> string list" where
  "rmatch (Class p) s = (case s of [] \<Rightarrow> [] | c # cs \<Rightarrow> if p c then [cs] else [])"
| "rmatch (Lit l) s =
     (if length l \<le> length s \<and> toLowerCase (take (length l) s) = toLowerCase l
      then [drop (length l) s] else [])"
| "rmatch (Cat a b) s = concat (map (rmatch b) (rmatch a s))"
| "rmatch (Alt a b) s = rmatch a s @ rmatch b s"
| "rmatch (Star a) s =
     concat (map (\<lambda>r. if length r < length s then rmatch (Star a) r else []) (rmatch a s)) @ [s]"

definition is_digit :: "char \<Rightarrow> bool" where
  "is_digit c = (c \<in> set ''0123456789'')"

definition digit :: regex where "digit = Class is_digit"

definition plus :: "regex \<Rightarrow> regex" where "plus r = Cat r (Star r)"

definition opt :: "regex \<Rightarrow> regex" where "opt r = Alt r (Lit [])"

fun alts :: "string list \<Rightarrow> regex" where
  "alts [] = Class (\<lambda>c. False)"
| "alts [l] = Lit l"
| "alts (l # ls) = Alt (Lit l) (alts ls)"

text \<open>\<^verbatim>\<open>\d+(?:,\d{3})*\<close>, \<^verbatim>\<open>(?:\.\d+)?\<close> and \<^verbatim>\<open>\s*\<close>.\<close>

definition grouped_number :: regex where
  "grouped_number = Cat (plus digit) (Star (Cat (Lit '','') (Cat digit (Cat digit digit))))"

definition decimals :: regex where
  "decimals = opt (Cat (Lit ''.'') (plus digit))"

definition spaces :: regex where "spaces = Star (Class is_space)"

text \<open>Every pattern of the table is one capturing group followed by a part without
  groups: \<open>captured\<close> and \<open>followed_by\<close>.\<close>

record pattern =
  captured :: regex
  followed_by :: regex

definition patterns :: "pattern obj" where
  "patterns =
   [(''energy'',
       \<lparr>captured = Cat grouped_number decimals,
        followed_by = Cat spaces (alts [''kwh'', ''kilowatt'', ''energy''])\<rparr>),
    (''fuel'',
       \<lparr>captured = Cat grouped_number decimals,
        followed_by = Cat spaces
          (Alt (Cat (Lit ''liter'') (opt (Lit ''s'')))
          (Alt (Cat (Lit ''litre'') (opt (Lit ''s'')))
          (Alt (Cat (Lit ''gallon'') (opt (Lit ''s'')))
               (Lit ''fuel''))))\<rparr>),
    (''employees'',
       \<lparr>captured = grouped_number,
        followed_by = Cat spaces
          (Alt (Cat (Lit ''employee'') (opt (Lit ''s'')))
          (Alt (Cat (Lit ''worker'') (opt (Lit ''s'')))
               (Lit ''staff'')))\<rparr>),
    (''travel'',
       \<lparr>captured = Cat grouped_number decimals,
        followed_by = Cat spaces
          (Alt (Lit ''km'')
          (Alt (Cat (Lit ''kilometer'') (opt (Lit ''s'')))
          (Alt (Cat (Lit ''mile'') (opt (Lit ''s'')))
               (Lit ''travel''))))\<rparr>),
    (''waste'',
       \<lparr>captured = Cat grouped_number decimals,
        followed_by = Cat spaces
          (Alt (Cat (Lit ''ton'') (opt (Lit ''s'')))
          (Alt (Cat (Lit ''tonne'') (opt (Lit ''s'')))
               (Lit ''waste'')))\<rparr>),
    (''percentage'',
       \<lparr>captured = Cat (plus digit) decimals,
        followed_by = Cat spaces (alts [''%'', ''percent''])\<rparr>),
    (''industry'',
       \<lparr>captured = alts [''manufacturing'', ''retail'', ''technology'', ''healthcare'',
                          ''finance'', ''automotive'', ''aviation'', ''construction'',
                          ''agriculture''],
        followed_by = Lit []\<rparr>),
    (''timeframe'',
       \<lparr>captured = plus digit,
        followed_by = Cat spaces
          (Alt (Cat (Lit ''year'') (opt (Lit ''s'')))
               (Cat (Lit ''month'') (opt (Lit ''s''))))\<rparr>)]"

text \<open>A match of a pattern at the start of \<open>s\<close>: the first way for the group that the
  rest of the pattern can follow; the result is the text of the group.\<close>

definition match_here :: "pattern \<Rightarrow> string \<Rightarrow> string option" where
  "match_here p s =
     (case filter (\<lambda>r. rmatch (followed_by p) r \<noteq> []) (rmatch (captured p) s) of
        [] \<Rightarrow> None
      | r # _ \<Rightarrow> Some (take (length s - length r) s))"

text \<open>\<^verbatim>\<open>message.match(pattern)\<close> without the flag \<^verbatim>\<open>g\<close>: the match at the leftmost
  position that has one; \<open>None\<close> is \<^verbatim>\<open>null\<close>, \<open>Some v\<close> has \<^verbatim>\<open>matches[1]\<close> = \<open>v\<close>.\<close>

fun match_str :: "pattern \<Rightarrow> string \<Rightarrow> string option" where
  "match_str p [] = match_here p []"
| "match_str p (c # cs) =
     (case match_here p (c # cs) of Some v \<Rightarrow> Some v | None \<Rightarrow> match_str p cs)"

definition extract_with :: "pattern obj \<Rightarrow> string \<Rightarrow> entity list" where
  "extract_with table message =
     fold (\<lambda>entry found.
             case match_str (snd entry) message of
               None \<Rightarrow> found
             | Some v \<Rightarrow> found @ [\<lparr>type = fst entry, value = v, entity_confidence = 9 / 10\<rparr>])
          table []"

text \<open>\<^verbatim>\<open>EntityExtractor.extract\<close>.\<close>

definition extract_entities :: "string \<Rightarrow> entity list" where
  "extract_entities message = extract_with patterns message"


section \<open>IntelligentChatbot\<close>

subsection \<open>preprocessMessage\<close>

definition is_word :: "char \<Rightarrow> bool" where
  "is_word c =
     (c \<in> set (''abcdefghijklmnopqrstuvwxyz'' @ ''ABCDEFGHIJKLMNOPQRSTUVWXYZ''
                @ ''0123456789'' @ ''_''))"

text \<open>\<^verbatim>\<open>.replace(/[^\w\s.-]/g, ' ')\<close>\<close>

definition blank_punctuation :: "string \<Rightarrow> string" where
  "blank_punctuation s =
     map (\<lambda>c. if is_word c \<or> is_space c \<or> c = CHR ''.'' \<or> c = CHR ''-'' then c else CHR '' '') s"

text \<open>\<^verbatim>\<open>.replace(/\s+/g, ' ')\<close>\<close>

function collapse_spaces :: "string \<Rightarrow> string" where
  "collapse_spaces [] = []"
| "collapse_spaces (c # cs) =
     (if is_space c then CHR '' '' # collapse_spaces (dropWhile is_space cs)
      else c # collapse_spaces cs)"
  by pat_completeness auto
termination
  by (relation "measure length") (auto simp: length_dropWhile_le less_Suc_eq_le)

definition preprocessMessage :: "string \<Rightarrow> string" where
  "preprocessMessage message = collapse_spaces (blank_punctuation (trim (toLowerCase message)))"

subsection \<open>The conversation context\<close>

record session_context =
  ctx_intents :: "intent list"
  ctx_entities :: "entity list"
  ctx_topics :: "string list"
  lastAction :: "string option"

text \<open>
  \<^verbatim>\<open>contextMemory\<close> starts as \<^verbatim>\<open>{}\<close>, an object that inherits from
  \<^verbatim>\<open>Object.prototype\<close>. Reading a key it does not own gives \<^verbatim>\<open>undefined\<close>, unless
  the key names a member of \<^verbatim>\<open>Object.prototype\<close>: then the read gives that member,
  which is truthy and has none of the fields of a context.
\<close>

definition object_prototype_names :: "string list" where
  "object_prototype_names =
     [''constructor'', ''__defineGetter__'', ''__defineSetter__'', ''hasOwnProperty'',
      ''__lookupGetter__'', ''__lookupSetter__'', ''isPrototypeOf'',
      ''propertyIsEnumerable'', ''toString'', ''valueOf'', ''__proto__'',
      ''toLocaleString'']"

datatype 'a property = Own 'a | Inherited | Undefined

definition get_property :: "(string \<rightharpoonup> 'a) \<Rightarrow> string \<Rightarrow> 'a property" where
  "get_property object key =
     (case object key of
        Some v \<Rightarrow> Own v
      | None \<Rightarrow> if key \<in> set object_prototype_names then Inherited else Undefined)"

definition new_context :: session_context where
  "new_context = \<lparr>ctx_intents = [], ctx_entities = [], ctx_topics = [], lastAction = None\<rparr>"

text \<open>\<^verbatim>\<open>xs.slice(-n)\<close>: the last \<open>n\<close> elements, all of them when there are fewer.\<close>

definition slice_last :: "nat \<Rightarrow> 'a list \<Rightarrow> 'a list" where
  "slice_last n xs = drop (length xs - n) xs"

text \<open>The statements of \<^verbatim>\<open>updateContext\<close> after the context object is at hand.\<close>

definition push_context :: "session_context \<Rightarrow> intent \<Rightarrow> entity list \<Rightarrow> session_context" where
  "push_context c intent entities =
     (let c1 = c\<lparr>ctx_intents := ctx_intents c @ [intent],
                 ctx_entities := ctx_entities c @ entities,
                 lastAction := Some (name intent)\<rparr>
      in if length (ctx_intents c1) > 10
         then c1\<lparr>ctx_intents := slice_last 10 (ctx_intents c1),
                 ctx_entities := slice_last 20 (ctx_entities c1)\<rparr>
         else c1)"

text \<open>\<^verbatim>\<open>updateContext\<close>. For an inherited key the test
  \<^verbatim>\<open>!this.contextMemory[sessionId]\<close> is false, no context is created, and
  \<^verbatim>\<open>context.intents.push\<close> throws because \<^verbatim>\<open>context.intents\<close> is undefined.\<close>

definition updateContext ::
  "(string \<rightharpoonup> session_context) \<Rightarrow> intent \<Rightarrow> entity list \<Rightarrow> string \<Rightarrow> error + (string \<rightharpoonup> session_context)" where
  "updateContext memory intent entities sessionId =
     (case get_property memory sessionId of
        Undefined \<Rightarrow> Inr (memory(sessionId \<mapsto> push_context new_context intent entities))
      | Own c \<Rightarrow> Inr (memory(sessionId \<mapsto> push_context c intent entities))
      | Inherited \<Rightarrow> Inl TypeError)"

text \<open>A sequence of \<^verbatim>\<open>updateContext\<close> calls on one session id; it stops at the first
  call that throws.\<close>

fun updates ::
  "(string \<rightharpoonup> session_context) \<Rightarrow> (intent \<times> entity list) list \<Rightarrow> string \<Rightarrow> error + (string \<rightharpoonup> session_context)" where
  "updates memory [] sessionId = Inr memory"
| "updates memory (call # calls) sessionId =
     (case updateContext memory (fst call) (snd call) sessionId of
        Inl e \<Rightarrow> Inl e
      | Inr memory' \<Rightarrow> updates memory' calls sessionId)"


text \<open>A read of the session's context, as the dispatcher does it:
  \<^verbatim>\<open>this.contextMemory[sessionId] || {}\<close>. Of the result only the fields of a stored
  context are ever read; they are undefined both for the empty object and for a member of
  \<^verbatim>\<open>Object.prototype\<close>.\<close>

definition context_of :: "(string \<rightharpoonup> session_context) \<Rightarrow> string \<Rightarrow> session_context" where
  "context_of memory sessionId =
     (case get_property memory sessionId of
        Own c \<Rightarrow> c
      | Inherited \<Rightarrow> new_context
      | Undefined \<Rightarrow> new_context)"

text \<open>The calls of \<open>updates\<close> followed by a read of the session's context.\<close>

definition updates_then_read ::
  "(string \<rightharpoonup> session_context) \<Rightarrow> (intent \<times> entity list) list \<Rightarrow> string \<Rightarrow> error + session_context" where
  "updates_then_read memory calls sessionId =
     (case updates memory calls sessionId of
        Inl e \<Rightarrow> Inl e
      | Inr memory' \<Rightarrow> Inr (context_of memory' sessionId))"

subsection \<open>Responses\<close>

text \<open>
  The prose of the responses is data that no code path inspects, and most of it has
  characters outside the range of the string model. A fixed text is therefore named by
  a constructor, with the values interpolated into it as arguments; only the fallback
  texts are spelled out. \<open>ParseInt v\<close> stands for \<^verbatim>\<open>parseInt(v)\<close>.
\<close>

datatype recommendation =
    SwitchToRenewableEnergy
  | EmissionsTracking
  | OptimizeTransportation
  | CircularEconomy
  | ScienceBasedTargets
  | OptimizeCloudInfrastructure
  | LeanManufacturing

datatype reduction = Fifty | ParseInt string

datatype prose =
    Text string
  | GreetingText nat
  | GoodbyeText nat
  | CalculationPartialText "string list" "string list"
  | CalculationHelpText
  | RecommendationsText string "recommendation list"
  | ConceptText string
  | ConceptFallbackText
  | ComplianceText string
  | InheritedMember string
  | CostAnalysisText string
  | RoadmapText reduction
  | RoadmapPhasesText reduction
  | BasicConceptsText
  | CalculatorUsageText
  | IndustryBenchmarksText
  | AdvancedAnalyticsText
  | AIMLFeaturesText
  | ReportingTrackingText
  | IndustrySpecificText
  | GeneralInfoText

record calculation_data =
  hasPartialData :: bool
  mentionedFields :: "string list"
  missingFields :: "string list"
  extractedValues :: "entity list"

datatype data =
    Null
  | CalculationData calculation_data
  | RecommendationData "recommendation list" string string
  | ConceptData string "string list"
  | ComplianceData string string
  | CostData prose string string
  | StrategyData prose "string list" reduction string

text \<open>What a handler returns; \<open>data = None\<close> when the object has no such property.\<close>

record response =
  "text" :: prose
  suggestions :: "string list"
  response_confidence :: rat
  data :: "data option"

text \<open>What \<^verbatim>\<open>processMessage\<close> and \<^verbatim>\<open>getFallbackResponse\<close> return.\<close>

record reply =
  response :: prose
  reply_suggestions :: "string list"
  reply_data :: "data option"
  reply_confidence :: rat

text \<open>\<^verbatim>\<open>Math.floor(Math.random() * n)\<close>, for the value \<open>random\<close> of \<^verbatim>\<open>Math.random()\<close>,
  which is at least 0 and less than 1.\<close>

definition random_index :: "nat \<Rightarrow> rat \<Rightarrow> nat" where
  "random_index n random = nat \<lfloor>random * of_nat n\<rfloor>"

definition fallbacks :: "string list" where
  "fallbacks =
     [''I'm here to help with carbon accounting questions. Could you rephrase that?'',
      ''I specialize in sustainability and carbon footprint topics. What would you like to know?'',
      ''Let me help you with carbon accounting. Try asking about calculations, recommendations, or industry standards.'',
      ''I can assist with carbon footprint calculations, reduction strategies, and compliance questions. What interests you?'']"

definition getFallbackResponse :: "rat \<Rightarrow> reply" where
  "getFallbackResponse random =
     \<lparr>response = Text (fallbacks ! random_index (length fallbacks) random),
      reply_suggestions =
        [''Calculate carbon footprint'', ''Get reduction recommendations'',
         ''Learn about standards'', ''Industry best practices''],
      reply_data = Some Null,
      reply_confidence = 5 / 10\<rparr>"

subsection \<open>Entity helpers\<close>

definition extractCalculationData :: "entity list \<Rightarrow> calculation_data" where
  "extractCalculationData entities =
     (let fields = [''energy'', ''fuel'', ''employees'', ''travel'', ''waste''];
          mentioned = filter (\<lambda>e. type e \<in> set fields) entities;
          mentionedNames = map type mentioned
      in \<lparr>hasPartialData = (length mentioned > 0),
          mentionedFields = mentionedNames,
          missingFields = filter (\<lambda>f. f \<notin> set mentionedNames) fields,
          extractedValues = mentioned\<rparr>)"

text \<open>\<^verbatim>\<open>entities.find(e => e.type === t)\<close>, then its value or the default.\<close>

definition entity_value :: "string \<Rightarrow> string \<Rightarrow> entity list \<Rightarrow> string" where
  "entity_value t otherwise entities =
     (case find (\<lambda>e. type e = t) entities of Some e \<Rightarrow> value e | None \<Rightarrow> otherwise)"

definition extractIndustry :: "entity list \<Rightarrow> string" where
  "extractIndustry = entity_value ''industry'' ''general''"

definition extractEmissionLevel :: "entity list \<Rightarrow> string" where
  "extractEmissionLevel = entity_value ''emission_level'' ''medium''"

definition extractConcept :: "entity list \<Rightarrow> string" where
  "extractConcept = entity_value ''concept'' ''carbon_footprint''"

definition extractStandard :: "entity list \<Rightarrow> string" where
  "extractStandard = entity_value ''standard'' ''ghg_protocol''"

definition extractRegion :: "entity list \<Rightarrow> string" where
  "extractRegion = entity_value ''region'' ''global''"

definition extractAnalysisType :: "entity list \<Rightarrow> string" where
  "extractAnalysisType = entity_value ''analysis_type'' ''cost_benefit''"

definition extractTimeframe :: "entity list \<Rightarrow> string" where
  "extractTimeframe = entity_value ''timeframe'' ''5_years''"

definition extractTargetReduction :: "entity list \<Rightarrow> reduction" where
  "extractTargetReduction entities =
     (case find (\<lambda>e. type e = ''percentage'') entities of
        Some e \<Rightarrow> ParseInt (value e)
      | None \<Rightarrow> Fifty)"

subsection \<open>CarbonKnowledgeBase\<close>

text \<open>The keys of \<^verbatim>\<open>this.concepts\<close> with their \<^verbatim>\<open>related\<close> lists; the confidence
  of each entry is 0.95.\<close>

definition concepts :: "string \<rightharpoonup> string list" where
  "concepts =
     [''carbon_footprint'' \<mapsto> [''scope_1'', ''scope_2'', ''scope_3''],
      ''scope_1'' \<mapsto> [''scope_2'', ''scope_3'', ''ghg_protocol''],
      ''scope_2'' \<mapsto> [''scope_1'', ''scope_3'', ''renewable_energy'']]"

text \<open>\<^verbatim>\<open>r.replace('_', ' ')\<close> replaces the first underscore only.\<close>

fun replace_underscore :: "string \<Rightarrow> string" where
  "replace_underscore [] = []"
| "replace_underscore (c # cs) = (if c = CHR ''_'' then CHR '' '' # cs else c # replace_underscore cs)"

record explanation =
  explanation_text :: prose
  related :: "string list"
  explanation_confidence :: rat
  relatedTopics :: "string list"

text \<open>For an inherited key \<^verbatim>\<open>info\<close> is a member of \<^verbatim>\<open>Object.prototype\<close>, and
  \<^verbatim>\<open>info.related.map\<close> throws.\<close>

definition explainConcept :: "string \<Rightarrow> error + explanation" where
  "explainConcept concept =
     (case get_property concepts concept of
        Own rel \<Rightarrow>
          Inr \<lparr>explanation_text = ConceptText concept, related = rel,
               explanation_confidence = 95 / 100,
               relatedTopics = map (\<lambda>r. ''Learn about '' @ replace_underscore r) rel\<rparr>
      | Inherited \<Rightarrow> Inl TypeError
      | Undefined \<Rightarrow>
          Inr \<lparr>explanation_text = ConceptFallbackText, related = [],
               explanation_confidence = 6 / 10,
               relatedTopics = [''Carbon footprint basics'', ''Emission scopes'', ''GHG Protocol'']\<rparr>)"

definition getRecommendations :: "string \<Rightarrow> string \<Rightarrow> recommendation list" where
  "getRecommendations industry level =
     (let baseRecommendations =
            [SwitchToRenewableEnergy, EmissionsTracking, OptimizeTransportation,
             CircularEconomy, ScienceBasedTargets]
      in if industry = ''technology'' then OptimizeCloudInfrastructure # baseRecommendations
         else if industry = ''manufacturing'' then LeanManufacturing # baseRecommendations
         else baseRecommendations)"

text \<open>\<^verbatim>\<open>compliance[standard] || compliance['ghg_protocol']\<close>\<close>

definition getComplianceInfo :: "string \<Rightarrow> string \<Rightarrow> prose" where
  "getComplianceInfo standard region =
     (if standard \<in> {''ghg_protocol'', ''iso_14064''} then ComplianceText standard
      else if standard \<in> set object_prototype_names then InheritedMember standard
      else ComplianceText ''ghg_protocol'')"


subsection \<open>Handlers\<close>

definition handleGreeting :: "entity list \<Rightarrow> session_context \<Rightarrow> rat \<Rightarrow> response" where
  "handleGreeting entities ctx random =
     \<lparr>text = GreetingText (random_index 4 random),
      suggestions =
        [''Calculate my carbon footprint'', ''How does AI improve carbon calculations?'',
         ''Get carbon reduction recommendations'', ''Explain machine learning in sustainability''],
      response_confidence = 95 / 100,
      data = None\<rparr>"

definition handleGoodbye :: "entity list \<Rightarrow> session_context \<Rightarrow> rat \<Rightarrow> response" where
  "handleGoodbye entities ctx random =
     \<lparr>text = GoodbyeText (random_index 4 random),
      suggestions = [],
      response_confidence = 95 / 100,
      data = None\<rparr>"

definition handleCarbonCalculation :: "entity list \<Rightarrow> session_context \<Rightarrow> response" where
  "handleCarbonCalculation entities ctx =
     (let suggestionList =
            [''Try our Carbon Calculator above'', ''Tell me your energy consumption'',
             ''What's your company size?'', ''Need help with data collection?''];
          extractedData = extractCalculationData entities
      in if hasPartialData extractedData
         then \<lparr>text = CalculationPartialText (mentionedFields extractedData)
                                              (missingFields extractedData),
               suggestions = suggestionList,
               response_confidence = 9 / 10,
               data = Some (CalculationData extractedData)\<rparr>
         else \<lparr>text = CalculationHelpText,
               suggestions = suggestionList,
               response_confidence = 85 / 100,
               data = Some Null\<rparr>)"

text \<open>\<^verbatim>\<open>handleRecommendations\<close>. The class has no method
  \<^verbatim>\<open>personalizeRecommendations\<close>, so the call in the branch for
  \<^verbatim>\<open>context.lastAction === 'calculate_carbon'\<close> throws.\<close>

definition handleRecommendations :: "entity list \<Rightarrow> session_context \<Rightarrow> error + response" where
  "handleRecommendations entities ctx =
     (let industry = extractIndustry entities;
          emissionLevel = extractEmissionLevel entities;
          recommendations = getRecommendations industry emissionLevel
      in if lastAction ctx = Some ''calculate_carbon'' then Inl TypeError
         else Inr \<lparr>text = RecommendationsText
                            (if industry = [] then ''your business'' else industry)
                            recommendations,
                    suggestions =
                      [''How much can I save?'', ''Implementation timeline?'',
                       ''Industry best practices'', ''Government incentives?''],
                    response_confidence = 92 / 100,
                    data = Some (RecommendationData recommendations industry emissionLevel)\<rparr>)"

definition handleConceptExplanation :: "entity list \<Rightarrow> session_context \<Rightarrow> error + response" where
  "handleConceptExplanation entities ctx =
     (let concept = extractConcept entities
      in case explainConcept concept of
           Inl e \<Rightarrow> Inl e
         | Inr ex \<Rightarrow>
             Inr \<lparr>text = explanation_text ex,
                  suggestions = relatedTopics ex,
                  response_confidence = explanation_confidence ex,
                  data = Some (ConceptData concept (related ex))\<rparr>)"

definition handleComplianceQuestions :: "entity list \<Rightarrow> session_context \<Rightarrow> response" where
  "handleComplianceQuestions entities ctx =
     (let standard = extractStandard entities;
          region = extractRegion entities
      in \<lparr>text = getComplianceInfo standard region,
          suggestions =
            [''Implementation steps?'', ''Required documentation?'',
             ''Certification process?'', ''Deadlines and timelines?''],
          response_confidence = 90 / 100,
          data = Some (ComplianceData standard region)\<rparr>)"

definition handleCostAnalysis :: "entity list \<Rightarrow> session_context \<Rightarrow> response" where
  "handleCostAnalysis entities ctx =
     (let analysisType = extractAnalysisType entities;
          timeframe = extractTimeframe entities
      in \<lparr>text = CostAnalysisText timeframe,
          suggestions =
            [''ROI calculations?'', ''Financing options?'',
             ''Government incentives?'', ''Payback period?''],
          response_confidence = 85 / 100,
          data = Some (CostData (CostAnalysisText timeframe)
                         ''15-25% annually'' ''3-6 years average'')\<rparr>)"

definition handleReductionStrategies :: "entity list \<Rightarrow> session_context \<Rightarrow> response" where
  "handleReductionStrategies entities ctx =
     (let targetReduction = extractTargetReduction entities;
          timeframe = extractTimeframe entities;
          industry = extractIndustry entities;
          nextSteps = [''Conduct energy audit'', ''Set interim milestones'',
                       ''Develop investment plan'', ''Engage suppliers'']
      in \<lparr>text = RoadmapText targetReduction,
          suggestions = nextSteps,
          response_confidence = 87 / 100,
          data = Some (StrategyData (RoadmapPhasesText targetReduction) nextSteps
                         targetReduction timeframe)\<rparr>)"

definition handleBasicConcepts :: "entity list \<Rightarrow> session_context \<Rightarrow> response" where
  "handleBasicConcepts entities ctx =
     \<lparr>text = BasicConceptsText,
      suggestions =
        [''Calculate my carbon footprint'', ''What are Scope 1 emissions?'',
         ''Explain emission factors'', ''How does AI help with carbon accounting?''],
      response_confidence = 9 / 10,
      data = None\<rparr>"

definition handleCalculatorUsage :: "entity list \<Rightarrow> session_context \<Rightarrow> response" where
  "handleCalculatorUsage entities ctx =
     \<lparr>text = CalculatorUsageText,
      suggestions =
        [''How to add travel data?'', ''What fuel types are supported?'',
         ''How to include waste data?'', ''Start carbon calculation''],
      response_confidence = 95 / 100,
      data = None\<rparr>"

definition handleIndustryBenchmarks :: "entity list \<Rightarrow> session_context \<Rightarrow> response" where
  "handleIndustryBenchmarks entities ctx =
     \<lparr>text = IndustryBenchmarksText,
      suggestions =
        [''Compare my company performance'', ''Get industry-specific recommendations'',
         ''View detailed benchmarks'', ''Calculate my footprint''],
      response_confidence = 88 / 100,
      data = None\<rparr>"

definition handleAdvancedAnalytics :: "entity list \<Rightarrow> session_context \<Rightarrow> response" where
  "handleAdvancedAnalytics entities ctx =
     \<lparr>text = AdvancedAnalyticsText,
      suggestions =
        [''Predict next year's emissions'', ''Calculate carbon neutrality timeline'',
         ''Analyze reduction potential'', ''Get cost savings estimates''],
      response_confidence = 92 / 100,
      data = None\<rparr>"

definition handleAIMLFeatures :: "entity list \<Rightarrow> session_context \<Rightarrow> response" where
  "handleAIMLFeatures entities ctx =
     \<lparr>text = AIMLFeaturesText,
      suggestions =
        [''How does the AI calculate confidence?'', ''What ML models are used?'',
         ''Get AI recommendations'', ''Learn about neural networks''],
      response_confidence = 95 / 100,
      data = None\<rparr>"

definition handleReportingTracking :: "entity list \<Rightarrow> session_context \<Rightarrow> response" where
  "handleReportingTracking entities ctx =
     \<lparr>text = ReportingTrackingText,
      suggestions =
        [''Generate emissions report'', ''Set science-based targets'',
         ''Track monthly progress'', ''View analytics dashboard''],
      response_confidence = 90 / 100,
      data = None\<rparr>"

definition handleIndustrySpecific :: "entity list \<Rightarrow> session_context \<Rightarrow> response" where
  "handleIndustrySpecific entities ctx =
     \<lparr>text = IndustrySpecificText,
      suggestions =
        [''Get tech industry tips'', ''Manufacturing best practices'',
         ''Retail sustainability guide'', ''Healthcare carbon reduction''],
      response_confidence = 87 / 100,
      data = None\<rparr>"

definition handleGeneralInfo :: "entity list \<Rightarrow> session_context \<Rightarrow> response" where
  "handleGeneralInfo entities ctx =
     \<lparr>text = GeneralInfoText,
      suggestions =
        [''Request a demo'', ''Learn about our AI technology'',
         ''Calculate carbon footprint'', ''Get started with sustainability''],
      response_confidence = 88 / 100,
      data = None\<rparr>"

subsection \<open>generateResponse\<close>

text \<open>The \<^verbatim>\<open>switch\<close> over \<^verbatim>\<open>intent.name\<close>. The class has no methods
  \<^verbatim>\<open>handleDataInterpretation\<close> and \<^verbatim>\<open>handleGeneralQuery\<close>: calling them throws.\<close>

definition generateResponse ::
  "(string \<rightharpoonup> session_context) \<Rightarrow> intent \<Rightarrow> entity list \<Rightarrow> string \<Rightarrow> rat \<Rightarrow> error + response" where
  "generateResponse memory intent entities sessionId random =
     (let ctx = context_of memory sessionId; n = name intent
      in if n = ''greeting'' then Inr (handleGreeting entities ctx random)
         else if n = ''goodbye'' then Inr (handleGoodbye entities ctx random)
         else if n = ''basic_concepts'' then Inr (handleBasicConcepts entities ctx)
         else if n = ''calculator_usage'' then Inr (handleCalculatorUsage entities ctx)
         else if n = ''industry_benchmarks'' then Inr (handleIndustryBenchmarks entities ctx)
         else if n = ''recommendations'' then handleRecommendations entities ctx
         else if n = ''advanced_analytics'' then Inr (handleAdvancedAnalytics entities ctx)
         else if n = ''ai_ml_features'' then Inr (handleAIMLFeatures entities ctx)
         else if n = ''reporting_tracking'' then Inr (handleReportingTracking entities ctx)
         else if n = ''industry_specific'' then Inr (handleIndustrySpecific entities ctx)
         else if n = ''general_info'' then Inr (handleGeneralInfo entities ctx)
         else if n = ''calculate_carbon'' then Inr (handleCarbonCalculation entities ctx)
         else if n = ''get_recommendations'' then handleRecommendations entities ctx
         else if n = ''explain_concept'' then handleConceptExplanation entities ctx
         else if n = ''compliance_standards'' then Inr (handleComplianceQuestions entities ctx)
         else if n = ''cost_analysis'' then Inr (handleCostAnalysis entities ctx)
         else if n = ''reduction_strategies'' then Inr (handleReductionStrategies entities ctx)
         else if n = ''data_interpretation'' then Inl TypeError
         else Inl TypeError)"

text \<open>The names in the \<^verbatim>\<open>case\<close> labels of the \<^verbatim>\<open>switch\<close>.\<close>

definition dispatch_names :: "string list" where
  "dispatch_names =
     [''greeting'', ''goodbye'', ''basic_concepts'', ''calculator_usage'',
      ''industry_benchmarks'', ''recommendations'', ''advanced_analytics'',
      ''ai_ml_features'', ''reporting_tracking'', ''industry_specific'', ''general_info'',
      ''calculate_carbon'', ''get_recommendations'', ''explain_concept'',
      ''compliance_standards'', ''cost_analysis'', ''reduction_strategies'',
      ''data_interpretation'']"

subsection \<open>storeConversation\<close>

record conversation =
  conv_timestamp :: string
  conv_sessionId :: string
  conv_userMessage :: string
  conv_botResponse :: prose
  conv_intent :: intent
  conv_confidence :: rat
  conv_entities :: "entity list"

text \<open>The state of the chatbot: the conversation history, the context memory and the
  keyword table of its classifier.\<close>

record chatbot =
  conversationHistory :: "conversation list"
  contextMemory :: "string \<rightharpoonup> session_context"
  classifier_intents :: "string list obj"

definition new_chatbot :: chatbot where
  "new_chatbot =
     \<lparr>conversationHistory = [], contextMemory = Map.empty, classifier_intents = intents_init\<rparr>"

text \<open>\<^verbatim>\<open>updateLearningModel\<close>: the stored conversation has no entities and no field
  \<^verbatim>\<open>response\<close>, so only the reinforcement of the classifier can run.\<close>

definition updateLearningModel :: "chatbot \<Rightarrow> conversation \<Rightarrow> chatbot" where
  "updateLearningModel self conv =
     (if confidence (conv_intent conv) > 8 / 10
      then self\<lparr>classifier_intents :=
                 reinforcePattern (classifier_intents self) (conv_userMessage conv)
                   (name (conv_intent conv))\<rparr>
      else self)"

definition storeConversation ::
  "chatbot \<Rightarrow> string \<Rightarrow> response \<Rightarrow> intent \<Rightarrow> string \<Rightarrow> string \<Rightarrow> chatbot" where
  "storeConversation self userMessage botResponse intent sessionId now =
     (let conv = \<lparr>conv_timestamp = now, conv_sessionId = sessionId,
                   conv_userMessage = userMessage, conv_botResponse = text botResponse,
                   conv_intent = intent, conv_confidence = confidence intent,
                   conv_entities = []\<rparr>
      in updateLearningModel (self\<lparr>conversationHistory := conversationHistory self @ [conv]\<rparr>) conv)"

subsection \<open>processMessage\<close>

text \<open>
  The body of the \<^verbatim>\<open>try\<close> block. \<open>Inl (e, self')\<close>: a statement threw \<open>e\<close>, and
  \<open>self'\<close> is the state the statements before it left. \<open>random\<close> is the value of the one
  call of \<^verbatim>\<open>Math.random()\<close> and \<open>now\<close> the time stamp of the stored conversation.
\<close>

definition try_processMessage ::
  "chatbot \<Rightarrow> string \<Rightarrow> string \<Rightarrow> rat \<Rightarrow> string \<Rightarrow> (error \<times> chatbot) + (reply \<times> chatbot)" where
  "try_processMessage self message sessionId random now =
     (let cleanMessage = preprocessMessage message
      in case classify (classifier_intents self) cleanMessage of
           Inl e \<Rightarrow> Inl (e, self)
         | Inr intent \<Rightarrow>
             (let entities = extract_entities cleanMessage
              in case updateContext (contextMemory self) intent entities sessionId of
                   Inl e \<Rightarrow> Inl (e, self)
                 | Inr memory \<Rightarrow>
                     (let self1 = self\<lparr>contextMemory := memory\<rparr>
                      in case generateResponse memory intent entities sessionId random of
                           Inl e \<Rightarrow> Inl (e, self1)
                         | Inr r \<Rightarrow>
                             Inr (\<lparr>response = text r,
                                   reply_suggestions = suggestions r,
                                   reply_data = data r,
                                   reply_confidence = response_confidence r\<rparr>,
                                  storeConversation self1 message r intent sessionId now))))"

text \<open>\<^verbatim>\<open>processMessage\<close>: the \<^verbatim>\<open>catch\<close> clause answers every exception of the body
  with \<^verbatim>\<open>getFallbackResponse()\<close>.\<close>

definition processMessage ::
  "chatbot \<Rightarrow> string \<Rightarrow> string \<Rightarrow> rat \<Rightarrow> string \<Rightarrow> reply \<times> chatbot" where
  "processMessage self message sessionId random now =
     (case try_processMessage self message sessionId random now of
        Inl (e, self') \<Rightarrow> (getFallbackResponse random, self')
      | Inr result \<Rightarrow> result)"


section \<open>Notions of the specification\<close>

text \<open>
  A keyword overlaps an utterance when one of the two tests of the scoring loop
  succeeds: the keyword occurs in the cleaned message, or a token longer than two
  characters occurs in the keyword.
\<close>

definition keyword_overlap :: "string \<Rightarrow> string \<Rightarrow> bool" where
  "keyword_overlap message keyword =
     (let cleanMessage = trim (toLowerCase message);
          words = split_space cleanMessage;
          keywordLower = toLowerCase keyword
      in includes_str cleanMessage keywordLower
         \<or> (\<exists>word \<in> set words. includes_str keywordLower word \<and> length word > 2))"

text \<open>
  The tokenisation in the words of the specification, "tokenize on whitespace": the
  maximal runs of characters that are not white space. It is not the tokenisation of
  \<^verbatim>\<open>classify\<close>, which is \<open>split_space\<close>.
\<close>

fun split_whitespace :: "string \<Rightarrow> string list" where
  "split_whitespace [] = [[]]"
| "split_whitespace (c # cs) =
     (if is_space c then [] # split_whitespace cs
      else (c # hd (split_whitespace cs)) # tl (split_whitespace cs))"

definition whitespace_tokens :: "string \<Rightarrow> string list" where
  "whitespace_tokens s = filter (\<lambda>w. w \<noteq> []) (split_whitespace s)"

section \<open>Properties\<close>

subsection \<open>Evaluation\<close>

text \<open>The lower-case mapping on the bits of a character, for evaluation: a capital
  has bit 6 set and bit 5 clear, and its small letter differs in bit 5 only.\<close>

lemma toLowerCase_char_bits [code]:
  "toLowerCase_char (Char b0 b1 b2 b3 b4 b5 b6 b7) =
     (if b6 \<and> \<not> b5 \<and>
         ((\<not> b7 \<and> (b0 \<or> b1 \<or> b2 \<or> b3 \<or> b4) \<and> \<not> (b4 \<and> b3 \<and> (b2 \<or> (b1 \<and> b0))))
          \<or> (b7 \<and> \<not> (b0 \<and> b1 \<and> b2 \<and> b4)))
      then Char b0 b1 b2 b3 b4 True b6 b7
      else Char b0 b1 b2 b3 b4 b5 b6 b7)"
  by (cases b0; cases b1; cases b2; cases b3; cases b4; cases b5; cases b6; cases b7;
      simp add: toLowerCase_char_def char_of_def bit_Suc_0_iff)

subsection \<open>The classifier\<close>

lemma obj_add_zero: "obj_add k 0 sc = sc"
  by (induction sc) auto

lemma obj_add_twice: "obj_add k a (obj_add k b sc) = obj_add k (b + a) sc"
  by (induction sc) auto

lemma keys_obj_add: "map fst (obj_add k n sc) = map fst sc"
  by (induction sc) auto

lemma fold_score_keyword:
  "fold (score_keyword cm ws k) kws sc = obj_add k (sum_list (map (keyword_points cm ws) kws)) sc"
proof (induction kws arbitrary: sc)
  case Nil
  show ?case by (simp add: obj_add_zero)
next
  case (Cons kw kws)
  show ?case by (simp add: Cons.IH) (simp add: score_keyword_def obj_add_twice)
qed

lemma keyword_points_nonneg: "0 \<le> keyword_points cm ws kw"
  by (simp add: keyword_points_def Let_def)

lemma sum_points_nonneg: "0 \<le> sum_list (map (keyword_points cm ws) kws)"
  by (rule sum_list_nonneg) (auto simp: keyword_points_nonneg)

lemma obj_add_nonneg:
  "0 \<le> n \<Longrightarrow> \<forall>e \<in> set sc. 0 \<le> snd e \<Longrightarrow> \<forall>e \<in> set (obj_add k n sc). 0 \<le> snd e"
  by (induction sc) auto

lemma obj_set_nonneg:
  "0 \<le> n \<Longrightarrow> \<forall>e \<in> set sc. 0 \<le> snd e \<Longrightarrow> \<forall>e \<in> set (obj_set k n sc). 0 \<le> (snd e :: int)"
  by (induction sc) auto

lemma obj_set_not_Nil: "obj_set k v sc \<noteq> []"
  by (cases sc) auto

lemma score_intent_eq:
  "score_intent cm ws entry sc = obj_add (fst entry) (sum_list (map (keyword_points cm ws) (snd entry))) sc"
  by (simp add: score_intent_def fold_score_keyword)

lemma fold_score_intent_keys:
  "map fst (fold (score_intent cm ws) tbl sc) = map fst sc"
  by (induction tbl arbitrary: sc) (auto simp: score_intent_eq keys_obj_add)

lemma fold_score_intent_nonneg:
  "\<forall>e \<in> set sc. 0 \<le> snd e \<Longrightarrow> \<forall>e \<in> set (fold (score_intent cm ws) tbl sc). 0 \<le> snd e"
proof (induction tbl arbitrary: sc)
  case Nil
  then show ?case by simp
next
  case (Cons entry tbl)
  have "\<forall>e \<in> set (score_intent cm ws entry sc). 0 \<le> snd e"
    unfolding score_intent_eq by (rule obj_add_nonneg[OF sum_points_nonneg Cons.prems])
  then show ?case using Cons.IH by simp
qed

lemma special_scores_nonneg:
  "\<forall>e \<in> set sc. 0 \<le> snd e \<Longrightarrow> \<forall>e \<in> set (special_scores ws sc). 0 \<le> snd e"
proof -
  assume a: "\<forall>e \<in> set sc. 0 \<le> snd e"
  have g: "\<forall>e \<in> set (obj_set k 100 s). 0 \<le> snd e" if "\<forall>e \<in> set s. 0 \<le> snd e" for k and s :: "int obj"
    using obj_set_nonneg[of 100 s k] that by simp
  show ?thesis
    unfolding special_scores_def Let_def using a g[OF a] g[OF g[OF a]] by simp
qed

lemma keys_obj_set_present: "k \<in> set (map fst sc) \<Longrightarrow> map fst (obj_set k v sc) = map fst sc"
  by (induction sc) auto

lemma special_scores_not_Nil: "sc \<noteq> [] \<Longrightarrow> special_scores ws sc \<noteq> []"
  by (simp add: special_scores_def Let_def obj_set_not_Nil)

lemma all_scores_nonneg: "\<forall>e \<in> set (all_scores table m). 0 \<le> snd e"
  unfolding all_scores_def Let_def
  by (rule fold_score_intent_nonneg, rule special_scores_nonneg) auto

lemma all_scores_not_Nil: "table \<noteq> [] \<Longrightarrow> all_scores table m \<noteq> []"
proof -
  assume a: "table \<noteq> []"
  have "map fst (all_scores table m) = map fst (special_scores (split_space (trim (toLowerCase m))) (map (\<lambda>entry. (fst entry, 0)) table))"
    unfolding all_scores_def Let_def by (rule fold_score_intent_keys)
  moreover have "special_scores (split_space (trim (toLowerCase m))) (map (\<lambda>entry. (fst entry, 0::int)) table) \<noteq> []"
    by (rule special_scores_not_Nil) (simp add: a)
  ultimately show ?thesis by auto
qed

lemma reduce_max:
  "fold (\<lambda>b a. if snd a > snd b then a else b) es e \<in> set (e # es) \<and>
   (\<forall>x \<in> set (e # es). (snd x :: int) \<le> snd (fold (\<lambda>b a. if snd a > snd b then a else b) es e))"
proof (induction es arbitrary: e)
  case Nil
  show ?case by simp
next
  case (Cons b es)
  show ?case using Cons.IH[of e] Cons.IH[of b] by (auto simp del: fold_simps simp add: fold_Cons) 
qed

lemma bestIntent_max:
  "sc \<noteq> [] \<Longrightarrow> \<exists>best. bestIntent sc = Inr best \<and> best \<in> set sc \<and> (\<forall>e \<in> set sc. snd e \<le> snd best)"
proof (cases sc)
  case Nil
  assume "sc \<noteq> []"
  with Nil show ?thesis by simp
next
  case (Cons e es)
  have "bestIntent sc = Inr (fold (\<lambda>b a. if snd a > snd b then a else b) es e)"
    by (simp add: bestIntent_def Cons)
  with reduce_max[of es e] Cons show ?thesis by simp
qed


lemma confidence_of_bounds: "2 / 10 \<le> confidence_of s \<and> confidence_of s \<le> 95 / 100"
  by (simp add: confidence_of_def min_def)

lemma confidence_of_pos: "0 < s \<Longrightarrow> 1 / 2 \<le> confidence_of s"
  by (simp add: confidence_of_def min_def)

lemma confidence_of_low: "confidence_of s < 3 / 10 \<Longrightarrow> s \<le> 0"
  using confidence_of_pos[of s] by (cases "0 < s") auto

lemma no_overlap_points:
  "\<not> keyword_overlap m kw \<Longrightarrow>
   keyword_points (trim (toLowerCase m)) (split_space (trim (toLowerCase m))) kw = 0"
  by (auto simp: keyword_overlap_def keyword_points_def Let_def filter_empty_conv)

lemma split_space_not_Nil: "split_space s \<noteq> []"
  by (cases s) auto

lemma prefix_hd_split_space: "prefix (hd (split_space s)) s"
  by (induction s) auto

lemma prefix_includes_str: "prefix t s \<Longrightarrow> includes_str s t"
  by (cases s) auto

lemma includes_hd_split_space: "includes_str s (hd (split_space s))"
  by (rule prefix_includes_str) (rule prefix_hd_split_space)

lemma sum_list_all_zero: "\<forall>x \<in> set xs. f x = (0::int) \<Longrightarrow> sum_list (map f xs) = 0"
  by (induction xs) auto

lemma fold_score_intent_id:
  "\<forall>entry \<in> set tbl. \<forall>kw \<in> set (snd entry). keyword_points cm ws kw = 0 \<Longrightarrow>
   fold (score_intent cm ws) tbl sc = sc"
proof (induction tbl arbitrary: sc)
  case Nil
  show ?case by simp
next
  case (Cons entry tbl)
  have "sum_list (map (keyword_points cm ws) (snd entry)) = 0"
    using Cons.prems by (intro sum_list_all_zero) simp
  then have "score_intent cm ws entry sc = sc"
    by (simp add: score_intent_eq obj_add_zero)
  then show ?case using Cons by simp
qed

lemma init_keywords:
  "{''hello'', ''hi'', ''hey'', ''sup'', ''howdy'', ''bye'', ''goodbye'', ''thanks'', ''thank you''}
   \<subseteq> set (concat (map snd intents_init))"
  by (simp add: intents_init_def)

lemma lower_fixed:
  "kw \<in> {''hello'', ''hi'', ''hey'', ''sup'', ''howdy'', ''bye'', ''goodbye'', ''thanks'', ''thank you''}
   \<Longrightarrow> toLowerCase kw = kw"
  by (auto simp: toLowerCase_def toLowerCase_char_def)

lemma no_overlap_no_special:
  assumes sub: "set (concat (map snd intents_init)) \<subseteq> K"
    and no: "\<forall>kw \<in> K. \<not> keyword_overlap m kw"
  shows "special_scores (split_space (trim (toLowerCase m))) sc = sc"
proof -
  let ?cm = "trim (toLowerCase m)"
  let ?ws = "split_space ?cm"
  have inK: "kw \<in> K" if "kw \<in> {''hello'', ''hi'', ''hey'', ''sup'', ''howdy'', ''bye'', ''goodbye'', ''thanks'', ''thank you''}" for kw
    using that init_keywords sub by blast
  have hd_in: "hd ?ws \<in> set ?ws" by (simp add: split_space_not_Nil)
  have inc: "includes_str ?cm (hd ?ws)" by (rule includes_hd_split_space)
  have a: "hd ?ws \<noteq> kw" if "kw \<in> {''hello'', ''hi'', ''hey'', ''sup'', ''howdy'', ''bye'', ''goodbye'', ''thanks''}" for kw
  proof
    assume e: "hd ?ws = kw"
    have "toLowerCase kw = kw" using that by (intro lower_fixed) auto
    then have "keyword_overlap m kw" using inc e by (simp add: keyword_overlap_def Let_def)
    moreover have "kw \<in> K" using that by (intro inK) auto
    ultimately show False using no by blast
  qed
  have b: "hd ?ws \<noteq> ''thank''"
  proof
    assume e: "hd ?ws = ''thank''"
    have "toLowerCase ''thank you'' = ''thank you''" by (intro lower_fixed) simp
    moreover have "includes_str ''thank you'' ''thank''" by simp
    ultimately have "\<exists>word \<in> set ?ws. includes_str (toLowerCase ''thank you'') word \<and> length word > 2"
      using hd_in e by (intro bexI[of _ "''thank''"]) simp_all
    then have "keyword_overlap m ''thank you''"
      unfolding keyword_overlap_def Let_def by blast
    moreover have "''thank you'' \<in> K" by (intro inK) simp
    ultimately show False using no by blast
  qed
  have "hd ?ws \<notin> set greeting_words" "hd ?ws \<notin> set goodbye_words"
    using a b by (auto simp: greeting_words_def goodbye_words_def)
  then show ?thesis by (simp add: special_scores_def Let_def)
qed

lemma no_overlap_all_scores:
  assumes sub: "set (concat (map snd intents_init)) \<subseteq> set (concat (map snd table))"
    and no: "\<forall>kw \<in> set (concat (map snd table)). \<not> keyword_overlap m kw"
  shows "all_scores table m = map (\<lambda>entry. (fst entry, 0)) table"
proof -
  have "\<forall>entry \<in> set table. \<forall>kw \<in> set (snd entry).
          keyword_points (trim (toLowerCase m)) (split_space (trim (toLowerCase m))) kw = 0"
    using no by (auto intro!: no_overlap_points)
  then show ?thesis
    unfolding all_scores_def Let_def
    by (simp add: fold_score_intent_id no_overlap_no_special[OF sub no])
qed


lemma special_scores_keys:
  "''greeting'' \<in> set (map fst sc) \<Longrightarrow> ''goodbye'' \<in> set (map fst sc) \<Longrightarrow>
   map fst (special_scores ws sc) = map fst sc"
  by (simp add: special_scores_def Let_def keys_obj_set_present)

lemma all_scores_keys:
  assumes "map fst table = map fst intents_init"
  shows "map fst (all_scores table m) = map fst intents_init"
proof -
  let ?sc0 = "map (\<lambda>entry. (fst entry, 0::int)) table"
  have k0: "map fst ?sc0 = map fst intents_init" using assms by (simp add: comp_def)
  have "''greeting'' \<in> set (map fst ?sc0)" "''goodbye'' \<in> set (map fst ?sc0)"
    unfolding k0 by (simp_all add: intents_init_def)
  then have "map fst (special_scores (split_space (trim (toLowerCase m))) ?sc0) = map fst ?sc0"
    by (rule special_scores_keys)
  then show ?thesis
    unfolding all_scores_def Let_def by (simp only: fold_score_intent_keys k0)
qed

lemma unknown_not_key: "''unknown'' \<notin> set (map fst intents_init)"
  by (simp add: intents_init_def)

text \<open>
  Claim C10. For every keyword table with the intents of the constructor and every
  utterance, the confidence returned by \<^verbatim>\<open>classify\<close> lies between 0.2 and 0.95; the
  name is \<^verbatim>\<open>unknown\<close> if and only if the winning score is 0, and then the
  confidence is 0.2; a winning score other than 0 is at least 1 and gives a confidence of
  at least 0.5, so a confidence below 0.3 occurs only with the winning score 0.
\<close>

theorem classify_confidence_range:
  assumes "map fst table = map fst intents_init"
  shows "\<exists>best i.
            bestIntent (all_scores table message) = Inr best
          \<and> (\<forall>e \<in> set (all_scores table message). snd e \<le> snd best)
          \<and> classify table message = Inr i
          \<and> 2 / 10 \<le> confidence i \<and> confidence i \<le> 95 / 100
          \<and> (name i = ''unknown'' \<longleftrightarrow> snd best = 0)
          \<and> (snd best = 0 \<longrightarrow> confidence i = 2 / 10)
          \<and> (snd best \<noteq> 0 \<longrightarrow> 1 \<le> snd best \<and> 1 / 2 \<le> confidence i)
          \<and> (confidence i < 3 / 10 \<longrightarrow> snd best = 0)"
proof -
  have ne: "table \<noteq> []" using assms by (auto simp: intents_init_def)
  obtain best where b: "bestIntent (all_scores table message) = Inr best"
      "best \<in> set (all_scores table message)"
      "\<forall>e \<in> set (all_scores table message). snd e \<le> snd best"
    using bestIntent_max[OF all_scores_not_Nil[OF ne, of message]] by blast
  have nn: "0 \<le> snd best" using all_scores_nonneg b(2) by blast
  define c where "c = confidence_of (snd best)"
  define i where "i = \<lparr>name = (if snd best = 0 \<or> c < 3 / 10 then ''unknown'' else fst best),
                        confidence = c, scores = all_scores table message\<rparr>"
  have cl: "classify table message = Inr i"
    by (simp add: classify_def Let_def b(1) i_def c_def)
  have "fst best \<in> set (map fst (all_scores table message))" using b(2) by simp
  then have key: "fst best \<noteq> ''unknown''"
    using all_scores_keys[OF assms, of message] unknown_not_key by metis
  have pos: "1 / 2 \<le> c" if "snd best \<noteq> 0"
    using that nn confidence_of_pos[of "snd best"] by (simp add: c_def)
  have zero: "c = 2 / 10" if "snd best = 0"
    using that by (simp add: c_def confidence_of_def)
  have low: "snd best = 0" if "c < 3 / 10"
  proof (rule ccontr)
    assume "snd best \<noteq> 0"
    then have "1 / 2 \<le> c" by (rule pos)
    with that show False by simp
  qed
  have nm: "name i = ''unknown'' \<longleftrightarrow> snd best = 0"
    using key low by (auto simp: i_def)
  have rng: "2 / 10 \<le> c \<and> c \<le> 95 / 100"
    unfolding c_def by (rule confidence_of_bounds)
  have ci: "confidence i = c" by (simp add: i_def)
  show ?thesis
    apply (rule exI[of _ best], rule exI[of _ i])
    using b(1) b(3) cl rng nm zero pos low nn unfolding ci by auto
qed

lemma map_other_keys:
  "k \<notin> fst ` set sc \<Longrightarrow>
   map (\<lambda>e. (fst e, if fst e = k then snd e + n else snd e)) sc = (sc :: int obj)"
  by (induction sc) auto

lemma obj_add_distinct:
  "distinct (map fst sc) \<Longrightarrow>
   obj_add k n sc = map (\<lambda>e. (fst e, if fst e = k then snd e + n else snd e)) sc"
  by (induction sc) (auto simp: map_other_keys)

lemma fold_score_intent_distinct:
  assumes "distinct (map fst tbl)" and "distinct (map fst sc)"
  shows "fold (score_intent cm ws) tbl sc =
         map (\<lambda>e. (fst e, snd e + (case map_of tbl (fst e) of
                                       None \<Rightarrow> 0
                                     | Some kws \<Rightarrow> sum_list (map (keyword_points cm ws) kws)))) sc"
  using assms
proof (induction tbl arbitrary: sc)
  case Nil
  show ?case by (simp add: map_idI)
next
  case (Cons entry tbl)
  let ?n = "sum_list (map (keyword_points cm ws) (snd entry))"
  have d: "distinct (map fst (obj_add (fst entry) ?n sc))"
    using Cons.prems(2) by (simp add: keys_obj_add)
  have notin: "map_of tbl (fst entry) = None"
    using Cons.prems(1) by (simp add: map_of_eq_None_iff)
  have "fold (score_intent cm ws) (entry # tbl) sc
        = fold (score_intent cm ws) tbl (obj_add (fst entry) ?n sc)"
    by (simp add: score_intent_eq)
  also have "\<dots> = map (\<lambda>e. (fst e, snd e + (case map_of tbl (fst e) of
                                       None \<Rightarrow> 0
                                     | Some kws \<Rightarrow> sum_list (map (keyword_points cm ws) kws))))
                      (obj_add (fst entry) ?n sc)"
    using Cons.IH[OF _ d] Cons.prems(1) by simp
  also have "\<dots> = map (\<lambda>e. (fst e, snd e + (case map_of (entry # tbl) (fst e) of
                                       None \<Rightarrow> 0
                                     | Some kws \<Rightarrow> sum_list (map (keyword_points cm ws) kws)))) sc"
    unfolding obj_add_distinct[OF Cons.prems(2)]
    using notin by (cases entry) auto
  finally show ?case .
qed

lemma keyword_points_le:
  "keyword_points cm ws kw \<le> 3 * int (length (split_space (toLowerCase kw))) + int (length ws)"
proof -
  have "length (filter (\<lambda>word. includes_str (toLowerCase kw) word \<and> length word > 2) ws) \<le> length ws"
    by (rule length_filter_le)
  then have "int (length (filter (\<lambda>word. includes_str (toLowerCase kw) word \<and> length word > 2) ws)) \<le> int (length ws)"
    by simp
  moreover have "(if includes_str cm (toLowerCase kw)
          then int (length (split_space (toLowerCase kw))) * 3 else 0)
        \<le> 3 * int (length (split_space (toLowerCase kw)))"
    by simp
  ultimately show ?thesis unfolding keyword_points_def Let_def by linarith
qed

lemma sum_points_le:
  "length ws \<le> 2 \<Longrightarrow>
   sum_list (map (keyword_points cm ws) kws)
     \<le> sum_list (map (\<lambda>kw. 3 * int (length (split_space (toLowerCase kw))) + 2) kws)"
proof (rule sum_list_mono)
  fix kw
  assume "length ws \<le> 2"
  then show "keyword_points cm ws kw \<le> 3 * int (length (split_space (toLowerCase kw))) + 2"
    using keyword_points_le[of cm ws kw] by simp
qed

lemma member_le_sum_points:
  "kw \<in> set kws \<Longrightarrow> keyword_points cm ws kw \<le> sum_list (map (keyword_points cm ws) kws)"
proof (induction kws)
  case Nil
  then show ?case by simp
next
  case (Cons a kws)
  then show ?case
    using keyword_points_nonneg[of cm ws a] sum_points_nonneg[of cm ws kws] by auto
qed

lemma reduce_first:
  "\<forall>x \<in> set es. snd x < (snd e :: int) \<Longrightarrow> fold (\<lambda>b a. if snd a > snd b then a else b) es e = e"
  by (induction es) auto

lemma lower_space: "toLowerCase_char c = CHR '' '' \<longleftrightarrow> c = CHR '' ''"
proof (cases "(65 \<le> (of_char c :: nat) \<and> (of_char c :: nat) \<le> 90) \<or> (192 \<le> (of_char c :: nat) \<and> (of_char c :: nat) \<le> 222 \<and> (of_char c :: nat) \<noteq> 215)")
  case False
  then have "toLowerCase_char c = c" by (auto simp: toLowerCase_char_def Let_def)
  then show ?thesis by simp
next
  case True
  then have "of_char c \<noteq> (32 :: nat)" by auto
  then have ne: "c \<noteq> CHR '' ''" by auto
  have "of_char (char_of (of_char c + 32 :: nat)) = ((of_char c + 32) mod 256 :: nat)"
    by (rule of_char_of)
  moreover have "(of_char c + 32 :: nat) < 256" using True by auto
  ultimately have "of_char (char_of (of_char c + 32 :: nat)) = (of_char c + 32 :: nat)" by simp
  then have "of_char (toLowerCase_char c) = (of_char c + 32 :: nat)"
    using True by (simp add: toLowerCase_char_def Let_def)
  then have "of_char (toLowerCase_char c) \<noteq> (32::nat)" using True by auto
  then have "toLowerCase_char c \<noteq> CHR '' ''" by auto
  with ne show ?thesis by simp
qed


lemma length_split_space: "length (split_space s) = Suc (count_list s (CHR '' ''))"
proof (induction s)
  case Nil
  show ?case by simp
next
  case (Cons c cs)
  have "length (tl (split_space cs)) = count_list cs (CHR '' '')"
    using Cons.IH by simp
  then show ?case using Cons.IH by simp
qed

lemma count_space_lower: "count_list (toLowerCase s) (CHR '' '') = count_list s (CHR '' '')"
  by (induction s) (auto simp: toLowerCase_def lower_space)

lemma init_bound:
  "\<forall>entry \<in> set intents_init.
     sum_list (map (\<lambda>kw. 3 * int (length (split_space (toLowerCase kw))) + 2) (snd entry)) \<le> 100"
  unfolding length_split_space count_space_lower
  by (simp add: intents_init_def)


lemma map_of_init_greeting:
  "map_of intents_init ''greeting'' =
     Some [''hello'', ''hi'', ''hey'', ''good morning'', ''good afternoon'', ''good evening'',
           ''greetings'', ''welcome'', ''start'', ''begin'', ''sup'', ''howdy'']"
  by (simp add: intents_init_def)

lemma distinct_init: "distinct (map fst intents_init)"
  by (simp add: intents_init_def)

lemma greeting_points:
  assumes "hd (split_space cm) \<in> {''hello'', ''hi'', ''hey'', ''sup'', ''howdy''}"
  shows "3 \<le> sum_list (map (keyword_points cm ws)
           [''hello'', ''hi'', ''hey'', ''good morning'', ''good afternoon'', ''good evening'',
            ''greetings'', ''welcome'', ''start'', ''begin'', ''sup'', ''howdy''])"
proof -
  let ?kw = "hd (split_space cm)"
  let ?kws = "[''hello'', ''hi'', ''hey'', ''good morning'', ''good afternoon'', ''good evening'',
            ''greetings'', ''welcome'', ''start'', ''begin'', ''sup'', ''howdy'']"
  have low: "toLowerCase ?kw = ?kw" using assms by (intro lower_fixed) auto
  have "includes_str cm (toLowerCase ?kw)" unfolding low by (rule includes_hd_split_space)
  moreover have "1 \<le> length (split_space (toLowerCase ?kw))"
    by (simp add: length_split_space)
  ultimately have "3 \<le> keyword_points cm ws ?kw"
    by (simp add: keyword_points_def Let_def)
  moreover have "?kw \<in> set ?kws" using assms by auto
  ultimately show ?thesis using member_le_sum_points[of ?kw ?kws cm ws] by linarith
qed

text \<open>
  Claim C3, for the tokens that \<^verbatim>\<open>classify\<close> computes. For every utterance whose
  lowercased and trimmed form, split at every single space, has at most two tokens, the
  first of them one of \<^verbatim>\<open>hello\<close>, \<^verbatim>\<open>hi\<close>, \<^verbatim>\<open>hey\<close>, \<^verbatim>\<open>sup\<close>, \<^verbatim>\<open>howdy\<close>,
  \<^verbatim>\<open>classify\<close> with the keyword table of the constructor returns the intent
  \<^verbatim>\<open>greeting\<close> with confidence 0.95.
\<close>

theorem classify_short_greeting:
  assumes "length (split_space (trim (toLowerCase message))) \<le> 2"
    and "hd (split_space (trim (toLowerCase message))) \<in> {''hello'', ''hi'', ''hey'', ''sup'', ''howdy''}"
  shows "classify intents_init message =
           Inr \<lparr>name = ''greeting'', confidence = 95 / 100,
                scores = all_scores intents_init message\<rparr>"
proof -
  let ?cm = "trim (toLowerCase message)"
  let ?ws = "split_space ?cm"
  let ?L = "\<lambda>k. case map_of intents_init k of
                   None \<Rightarrow> 0
                 | Some kws \<Rightarrow> sum_list (map (keyword_points ?cm ?ws) kws)"
  let ?sc0 = "map (\<lambda>entry. (fst entry, 0::int)) intents_init"
  let ?rest = "map (\<lambda>entry. (fst entry, 0::int)) (tl intents_init)"
  have g: "hd ?ws \<in> set greeting_words" using assms(2) by (simp add: greeting_words_def)
  have ng: "hd ?ws \<notin> set goodbye_words" using assms(2) by (auto simp: goodbye_words_def)
  have sp: "special_scores ?ws ?sc0 = (''greeting'', 100) # ?rest"
    using assms(1) g ng by (simp add: special_scores_def Let_def) (simp add: intents_init_def)
  have d1: "distinct (map fst ((''greeting'', 100::int) # ?rest))"
    by (simp add: intents_init_def)
  have sc: "all_scores intents_init message =
              (''greeting'', 100 + ?L ''greeting'') # map (\<lambda>e. (fst e, snd e + ?L (fst e))) ?rest"
    unfolding all_scores_def Let_def sp
    by (simp only: fold_score_intent_distinct[OF distinct_init d1]) simp
  have top: "103 \<le> 100 + ?L ''greeting''"
    using greeting_points[OF assms(2), of ?ws] by (simp add: map_of_init_greeting)
  have others: "snd x < 100 + ?L ''greeting''"
    if "x \<in> set (map (\<lambda>e. (fst e, snd e + ?L (fst e))) ?rest)" for x
  proof -
    from that obtain e where "e \<in> set ?rest" and xe: "x = (fst e, snd e + ?L (fst e))"
      by (auto simp del: map_map)
    then have "snd e = 0" by auto
    then have x: "snd x = ?L (fst e)" using xe by simp
    define k where "k = fst e"
    note x = x[folded k_def]
    have "?L k \<le> 100"
    proof (cases "map_of intents_init k")
      case None
      then show ?thesis by simp
    next
      case (Some kws)
      then have "(k, kws) \<in> set intents_init" by (rule map_of_SomeD)
      then have "sum_list (map (\<lambda>kw. 3 * int (length (split_space (toLowerCase kw))) + 2) kws) \<le> 100"
        using init_bound by force
      then show ?thesis using Some sum_points_le[OF assms(1), of ?cm kws] by simp
    qed
    then show ?thesis using x top by linarith
  qed
  have best: "bestIntent (all_scores intents_init message) = Inr (''greeting'', 100 + ?L ''greeting'')"
    unfolding sc bestIntent_def using reduce_first[of _ "(''greeting'', 100 + ?L ''greeting'')"] others
    by simp
  have c: "confidence_of (100 + ?L ''greeting'') = 95 / 100"
    using top by (simp add: confidence_of_def)
  show ?thesis
    unfolding classify_def Let_def best using top by (simp add: c)
qed

lemma get_property_plain:
  "sessionId \<notin> set object_prototype_names \<Longrightarrow>
   get_property memory sessionId = (case memory sessionId of Some c \<Rightarrow> Own c | None \<Rightarrow> Undefined)"
  by (simp add: get_property_def split: option.splits)

lemma updateContext_plain:
  assumes "sessionId \<notin> set object_prototype_names"
  shows "updateContext memory intent entities sessionId =
           Inr (memory(sessionId \<mapsto> push_context (context_of memory sessionId) intent entities))"
  using assms
  by (simp add: updateContext_def context_of_def get_property_plain split: option.splits)

lemma context_of_upd: "context_of (memory(sessionId \<mapsto> c)) sessionId = c"
  by (simp add: context_of_def get_property_def)

lemma slice_last_length: "length (slice_last n xs) = min n (length xs)"
  by (simp add: slice_last_def)

lemma slice_last_short: "length xs \<le> n \<Longrightarrow> slice_last n xs = xs"
  by (simp add: slice_last_def)

lemma push_context_intents:
  "ctx_intents (push_context c intent entities) = slice_last 10 (ctx_intents c @ [intent])"
  by (simp add: push_context_def Let_def slice_last_short)

lemma push_context_lastAction:
  "lastAction (push_context c intent entities) = Some (name intent)"
  by (simp add: push_context_def Let_def)

lemma push_context_entities:
  "ctx_entities (push_context c intent entities) =
     (if length (ctx_intents c) \<ge> 10 then slice_last 20 (ctx_entities c @ entities)
      else ctx_entities c @ entities)"
  by (auto simp add: push_context_def Let_def)

lemma slice_last_append:
  "slice_last n (slice_last n xs @ ys) = slice_last n (xs @ ys)"
proof (cases "length xs \<le> n")
  case True
  then show ?thesis by (simp add: slice_last_short)
next
  case False
  then have "length xs - n + n = length xs" by simp
  moreover have "length xs + length ys - n = length ys + (length xs - n)" using False by simp
  ultimately show ?thesis using False by (simp add: slice_last_def add.commute)
qed

lemma updates_plain:
  assumes "sessionId \<notin> set object_prototype_names"
  shows "\<exists>memory'. updates memory calls sessionId = Inr memory'
           \<and> ctx_intents (context_of memory' sessionId)
               = (if calls = [] then ctx_intents (context_of memory sessionId)
                  else slice_last 10 (ctx_intents (context_of memory sessionId) @ map fst calls))"
proof (induction calls arbitrary: memory)
  case Nil
  show ?case by simp
next
  case (Cons call calls)
  let ?m1 = "memory(sessionId \<mapsto> push_context (context_of memory sessionId) (fst call) (snd call))"
  have step: "updateContext memory (fst call) (snd call) sessionId = Inr ?m1"
    by (rule updateContext_plain[OF assms])
  obtain memory' where m: "updates ?m1 calls sessionId = Inr memory'"
    and h: "ctx_intents (context_of memory' sessionId)
               = (if calls = [] then ctx_intents (context_of ?m1 sessionId)
                  else slice_last 10 (ctx_intents (context_of ?m1 sessionId) @ map fst calls))"
    using Cons.IH[of ?m1] by blast
  have c1: "ctx_intents (context_of ?m1 sessionId)
              = slice_last 10 (ctx_intents (context_of memory sessionId) @ [fst call])"
    by (simp add: context_of_upd push_context_intents)
  have "ctx_intents (context_of memory' sessionId)
          = slice_last 10 (ctx_intents (context_of memory sessionId) @ map fst (call # calls))"
    unfolding h c1 by (simp add: slice_last_append)
  then show ?case using step m by simp
qed

lemma context_of_empty:
  "sessionId \<notin> set object_prototype_names \<Longrightarrow> context_of Map.empty sessionId = new_context"
  by (simp add: context_of_def get_property_def)

lemma updates_bounds:
  assumes "sessionId \<notin> set object_prototype_names"
  shows "length (ctx_intents (context_of memory sessionId)) \<le> 10 \<Longrightarrow>
         \<exists>memory'. updates memory calls sessionId = Inr memory'
           \<and> length (ctx_intents (context_of memory' sessionId)) \<le> 10
           \<and> (calls \<noteq> [] \<and> length (ctx_intents (context_of memory sessionId)) + length calls > 10
                \<longrightarrow> length (ctx_entities (context_of memory' sessionId)) \<le> 20)"
proof (induction calls arbitrary: memory)
  case Nil
  then show ?case by simp
next
  case (Cons call calls)
  let ?c = "context_of memory sessionId"
  let ?m1 = "memory(sessionId \<mapsto> push_context ?c (fst call) (snd call))"
  have step: "updateContext memory (fst call) (snd call) sessionId = Inr ?m1"
    by (rule updateContext_plain[OF assms])
  have c1: "context_of ?m1 sessionId = push_context ?c (fst call) (snd call)"
    by (rule context_of_upd)
  have len1: "length (ctx_intents (context_of ?m1 sessionId)) = min 10 (length (ctx_intents ?c) + 1)"
    unfolding c1 by (simp add: push_context_intents slice_last_length)
  then have le1: "length (ctx_intents (context_of ?m1 sessionId)) \<le> 10" by simp
  obtain memory' where m: "updates ?m1 calls sessionId = Inr memory'"
    and i: "length (ctx_intents (context_of memory' sessionId)) \<le> 10"
    and e: "calls \<noteq> [] \<and> length (ctx_intents (context_of ?m1 sessionId)) + length calls > 10
                \<longrightarrow> length (ctx_entities (context_of memory' sessionId)) \<le> 20"
    using Cons.IH[OF le1] by blast
  have res: "updates memory (call # calls) sessionId = Inr memory'"
    using step m by simp
  have "length (ctx_entities (context_of memory' sessionId)) \<le> 20"
    if big: "length (ctx_intents ?c) + length (call # calls) > 10"
  proof (cases "calls = []")
    case True
    then have "memory' = ?m1" using m by simp
    moreover have "length (ctx_intents ?c) \<ge> 10" using big True by simp
    ultimately show ?thesis
      unfolding c1 by (simp add: c1 push_context_entities slice_last_length)
  next
    case False
    have "length (ctx_intents (context_of ?m1 sessionId)) + length calls > 10"
      using big False unfolding len1 by (cases calls) auto
    then show ?thesis using e False by blast
  qed
  then show ?case using res i by blast
qed

text \<open>
  Claim C5, with the truncation as the code gates it. For every session id that names no
  member of \<^verbatim>\<open>Object.prototype\<close>, one call of \<^verbatim>\<open>updateContext\<close> appends the intent
  to the intent history of the session and the entities to its entity history, sets
  \<^verbatim>\<open>lastAction\<close>, and then, only if the intent history has more than 10 entries, cuts
  the intent history to its last 10 and the entity history to its last 20 entries. Hence
  after every sequence of calls on a new session the intent history has at most 10
  entries, and after more than 10 calls the entity history has at most 20.
\<close>

theorem updateContext_append_truncate:
  assumes "sessionId \<notin> set object_prototype_names"
  shows "updateContext memory intent entities sessionId =
           Inr (memory(sessionId \<mapsto>
             (let c = context_of memory sessionId;
                  appended_intents = ctx_intents c @ [intent];
                  appended_entities = ctx_entities c @ entities
              in \<lparr>ctx_intents = (if length appended_intents > 10
                                  then slice_last 10 appended_intents else appended_intents),
                  ctx_entities = (if length appended_intents > 10
                                   then slice_last 20 appended_entities else appended_entities),
                  ctx_topics = ctx_topics c,
                  lastAction = Some (name intent)\<rparr>)))
       \<and> (calls \<noteq> [] \<longrightarrow>
            (\<exists>c. updates_then_read Map.empty calls sessionId = Inr c
                \<and> length (ctx_intents c) \<le> 10
                \<and> (length calls > 10 \<longrightarrow> length (ctx_entities c) \<le> 20)))"
proof (intro conjI impI)
  show "updateContext memory intent entities sessionId =
           Inr (memory(sessionId \<mapsto>
             (let c = context_of memory sessionId;
                  appended_intents = ctx_intents c @ [intent];
                  appended_entities = ctx_entities c @ entities
              in \<lparr>ctx_intents = (if length appended_intents > 10
                                  then slice_last 10 appended_intents else appended_intents),
                  ctx_entities = (if length appended_intents > 10
                                   then slice_last 20 appended_entities else appended_entities),
                  ctx_topics = ctx_topics c,
                  lastAction = Some (name intent)\<rparr>)))"
  proof (cases "context_of memory sessionId")
    case (fields h1 h2 h3 h4)
    then show ?thesis
      unfolding updateContext_plain[OF assms] by (simp add: push_context_def Let_def)
  qed
next
  assume ne: "calls \<noteq> []"
  have z: "length (ctx_intents (context_of Map.empty sessionId)) = 0"
    by (simp add: context_of_empty[OF assms] new_context_def)
  then have "length (ctx_intents (context_of Map.empty sessionId)) \<le> 10" by simp
  from updates_bounds[OF assms this, of calls]
  obtain memory' where m: "updates Map.empty calls sessionId = Inr memory'"
    and i: "length (ctx_intents (context_of memory' sessionId)) \<le> 10"
    and e: "calls \<noteq> [] \<and> length (ctx_intents (context_of Map.empty sessionId)) + length calls > 10
                \<longrightarrow> length (ctx_entities (context_of memory' sessionId)) \<le> 20"
    by blast
  have "updates_then_read Map.empty calls sessionId = Inr (context_of memory' sessionId)"
    by (simp add: updates_then_read_def m)
  moreover have "length calls > 10 \<longrightarrow> length (ctx_entities (context_of memory' sessionId)) \<le> 20"
    using e ne z by simp
  ultimately show "\<exists>c. updates_then_read Map.empty calls sessionId = Inr c
                \<and> length (ctx_intents c) \<le> 10
                \<and> (length calls > 10 \<longrightarrow> length (ctx_entities c) \<le> 20)"
    using i by blast
qed

text \<open>
  For every session id that names no member of \<^verbatim>\<open>Object.prototype\<close>: a call of
  \<^verbatim>\<open>updateContext\<close> followed by a read of the session's context gives the name of the
  intent as \<^verbatim>\<open>lastAction\<close>, and after 11 calls on a new session the intent history
  is the last 10 intents, in the order of the calls.
\<close>

theorem updateContext_recent_window:
  assumes "sessionId \<notin> set object_prototype_names"
  shows "(\<exists>c. updates_then_read memory [(intent, entities)] sessionId = Inr c
             \<and> lastAction c = Some (name intent))
       \<and> (length calls = 11 \<longrightarrow>
            (\<exists>c. updates_then_read Map.empty calls sessionId = Inr c
                \<and> length (ctx_intents c) = 10
                \<and> ctx_intents c = map fst (tl calls)))"
proof (intro conjI impI)
  show "\<exists>c. updates_then_read memory [(intent, entities)] sessionId = Inr c
             \<and> lastAction c = Some (name intent)"
    by (simp add: updates_then_read_def updateContext_plain[OF assms] context_of_upd
          push_context_lastAction)
next
  assume l: "length calls = 11"
  then have ne: "calls \<noteq> []" by auto
  obtain memory' where m: "updates Map.empty calls sessionId = Inr memory'"
    and h: "ctx_intents (context_of memory' sessionId)
               = (if calls = [] then ctx_intents (context_of Map.empty sessionId)
                  else slice_last 10 (ctx_intents (context_of Map.empty sessionId) @ map fst calls))"
    using updates_plain[OF assms, of Map.empty calls] by blast
  have "ctx_intents (context_of memory' sessionId) = slice_last 10 (map fst calls)"
    using h ne by (simp add: context_of_empty[OF assms] new_context_def)
  also have "\<dots> = map fst (tl calls)"
    using l by (simp add: slice_last_def drop_Suc map_tl)
  finally have r: "ctx_intents (context_of memory' sessionId) = map fst (tl calls)" .
  have "length (map fst (tl calls)) = 10" using l by simp
  then show "\<exists>c. updates_then_read Map.empty calls sessionId = Inr c
                \<and> length (ctx_intents c) = 10
                \<and> ctx_intents c = map fst (tl calls)"
    using r m by (simp add: updates_then_read_def)
qed

text \<open>
  Claim C8 at the session id \<^verbatim>\<open>constructor\<close>: the call of \<^verbatim>\<open>updateContext\<close> on a
  new chatbot throws, so there is no context to read and no \<^verbatim>\<open>lastAction\<close>.
\<close>

theorem updateContext_inherited_session_throws:
  "updates_then_read Map.empty
     [(\<lparr>name = ''greeting'', confidence = 95 / 100, scores = []\<rparr>, [])] ''constructor''
   = Inl TypeError"
  by (simp add: updates_then_read_def updateContext_def get_property_def
        object_prototype_names_def)

lemma extract_with_fold:
  "fold (\<lambda>entry found.
             case match_str (snd entry) message of
               None \<Rightarrow> found
             | Some v \<Rightarrow> found @ [\<lparr>type = fst entry, value = v, entity_confidence = 9 / 10\<rparr>])
          table acc
   = acc @ List.map_filter
             (\<lambda>entry. map_option (\<lambda>v. \<lparr>type = fst entry, value = v, entity_confidence = 9 / 10\<rparr>)
                         (match_str (snd entry) message)) table"
  by (induction table arbitrary: acc) (auto simp: List.map_filter_simps split: option.splits)

lemma extract_with_map_filter:
  "extract_with table message =
     List.map_filter
       (\<lambda>entry. map_option (\<lambda>v. \<lparr>type = fst entry, value = v, entity_confidence = 9 / 10\<rparr>)
                   (match_str (snd entry) message)) table"
  unfolding extract_with_def extract_with_fold by simp

lemma extract_with_member:
  "e \<in> set (extract_with table message) \<longleftrightarrow>
     (\<exists>entry \<in> set table. \<exists>v. match_str (snd entry) message = Some v
        \<and> e = \<lparr>type = fst entry, value = v, entity_confidence = 9 / 10\<rparr>)"
  unfolding extract_with_map_filter
  by (induction table) (auto simp: List.map_filter_simps split: option.splits)

lemma extract_with_distinct:
  "distinct (map fst table) \<Longrightarrow> distinct (map type (extract_with table message))"
proof (induction table)
  case Nil
  show ?case by (simp add: extract_with_map_filter List.map_filter_simps)
next
  case (Cons entry table)
  have d: "distinct (map type (extract_with table message))"
    using Cons by simp
  have fresh: "fst entry \<notin> type ` set (extract_with table message)"
  proof
    assume "fst entry \<in> type ` set (extract_with table message)"
    then obtain e where "e \<in> set (extract_with table message)" "type e = fst entry" by auto
    then obtain entry' where "entry' \<in> set table" "fst entry' = fst entry"
      unfolding extract_with_member by auto
    then show False using Cons.prems by (auto simp: image_iff)
  qed
  show ?case
  proof (cases "match_str (snd entry) message")
    case None
    then have "extract_with (entry # table) message = extract_with table message"
      by (simp add: extract_with_map_filter List.map_filter_simps)
    then show ?thesis using d by simp
  next
    case (Some v)
    then have "extract_with (entry # table) message
               = \<lparr>type = fst entry, value = v, entity_confidence = 9 / 10\<rparr> # extract_with table message"
      by (simp add: extract_with_map_filter List.map_filter_simps)
    then show ?thesis using d fresh by simp
  qed
qed

lemma distinct_patterns: "distinct (map fst patterns)"
  by (simp add: patterns_def)

text \<open>
  Claim C7. For every input string the entities returned by \<^verbatim>\<open>extract\<close> have
  pairwise different types; each has confidence 0.9, its type is a key of the pattern
  table, and its value is the first group of the leftmost match of that key's pattern.
\<close>

theorem extract_one_entity_per_type:
  "distinct (map type (extract_entities message))
   \<and> (\<forall>e \<in> set (extract_entities message).
         entity_confidence e = 9 / 10
       \<and> (\<exists>p. (type e, p) \<in> set patterns \<and> match_str p message = Some (value e)))"
proof (intro conjI ballI)
  show "distinct (map type (extract_entities message))"
    unfolding extract_entities_def by (rule extract_with_distinct[OF distinct_patterns])
next
  fix e
  assume "e \<in> set (extract_entities message)"
  then obtain entry v where en: "entry \<in> set patterns"
    and mt: "match_str (snd entry) message = Some v"
    and e: "e = \<lparr>type = fst entry, value = v, entity_confidence = 9 / 10\<rparr>"
    unfolding extract_entities_def extract_with_member by blast
  show "entity_confidence e = 9 / 10" by (simp add: e)
  have "(type e, snd entry) \<in> set patterns" using en by (simp add: e)
  moreover have "match_str (snd entry) message = Some (value e)" using mt by (simp add: e)
  ultimately show "\<exists>p. (type e, p) \<in> set patterns \<and> match_str p message = Some (value e)"
    by blast
qed

text \<open>
  Claim C1 on the code: for every intent whose name is none of the \<^verbatim>\<open>case\<close> labels,
  \<^verbatim>\<open>generateResponse\<close> returns no response but throws, because the handler of the
  \<^verbatim>\<open>default\<close> branch does not exist.
\<close>

theorem generateResponse_unrouted_intent_throws:
  "name intent \<notin> set dispatch_names \<Longrightarrow>
   generateResponse memory intent entities sessionId random = Inl TypeError"
  by (simp add: generateResponse_def dispatch_names_def Let_def)

text \<open>
  Claim C9 on the code: when \<^verbatim>\<open>lastAction\<close> is \<^verbatim>\<open>calculate_carbon\<close> the handler
  throws, because \<^verbatim>\<open>personalizeRecommendations\<close> does not exist; otherwise it returns
  the generic list with four suggestions, confidence 0.92 and the data of the request.
\<close>

theorem handleRecommendations_personalized_throws:
  "(lastAction ctx = Some ''calculate_carbon'' \<longrightarrow>
      handleRecommendations entities ctx = Inl TypeError)
   \<and> (lastAction ctx \<noteq> Some ''calculate_carbon'' \<longrightarrow>
      (\<exists>r. handleRecommendations entities ctx = Inr r
          \<and> response_confidence r = 92 / 100
          \<and> length (suggestions r) = 4
          \<and> data r = Some (RecommendationData
                             (getRecommendations (extractIndustry entities) (extractEmissionLevel entities))
                             (extractIndustry entities) (extractEmissionLevel entities))))"
  by (simp add: handleRecommendations_def Let_def)

lemma random_index_less:
  "0 \<le> random \<Longrightarrow> random < 1 \<Longrightarrow> 0 < n \<Longrightarrow> random_index n random < n"
proof -
  assume a: "0 \<le> random" "random < 1" "0 < n"
  have "random * of_nat n < of_nat n" using a by simp
  then have "\<lfloor>random * of_nat n\<rfloor> < int n" by (simp add: floor_less_iff)
  moreover have "0 \<le> \<lfloor>random * of_nat n\<rfloor>" using a by simp
  ultimately show ?thesis unfolding random_index_def by linarith
qed

text \<open>
  Claim C2. Whenever a statement of the \<^verbatim>\<open>try\<close> block throws, \<^verbatim>\<open>processMessage\<close>
  returns the fallback response, with confidence 0.5 and, for a value of
  \<^verbatim>\<open>Math.random()\<close> in its range, one of the four fallback texts; the state is the one
  the statements before the exception left. \<open>processMessage\<close> has no error result: the
  exception does not reach the caller.
\<close>

theorem processMessage_catches_exceptions:
  assumes "try_processMessage self message sessionId random now = Inl (e, self')"
  shows "processMessage self message sessionId random now = (getFallbackResponse random, self')
       \<and> reply_confidence (fst (processMessage self message sessionId random now)) = 5 / 10
       \<and> (0 \<le> random \<and> random < 1 \<longrightarrow>
            (\<exists>t \<in> set fallbacks.
               response (fst (processMessage self message sessionId random now)) = Text t))"
proof -
  have p: "processMessage self message sessionId random now = (getFallbackResponse random, self')"
    using assms by (simp add: processMessage_def)
  have c: "reply_confidence (getFallbackResponse random) = 5 / 10"
    by (simp add: getFallbackResponse_def)
  have t: "\<exists>t \<in> set fallbacks. response (getFallbackResponse random) = Text t"
    if "0 \<le> random \<and> random < 1"
  proof -
    have "random_index (length fallbacks) random < length fallbacks"
      using that by (intro random_index_less) (auto simp: fallbacks_def)
    then have "fallbacks ! random_index (length fallbacks) random \<in> set fallbacks"
      by (rule nth_mem)
    then show ?thesis by (simp add: getFallbackResponse_def)
  qed
  show ?thesis using p c t by simp
qed

subsection \<open>Instances\<close>

lemma classify_returns: "table \<noteq> [] \<Longrightarrow> \<exists>i. classify table message = Inr i"
proof -
  assume "table \<noteq> []"
  then obtain best where "bestIntent (all_scores table message) = Inr best"
    using bestIntent_max[OF all_scores_not_Nil, of table message] by blast
  then show ?thesis by (simp add: classify_def Let_def)
qed

lemma xyzzy_no_overlap:
  "\<forall>kw \<in> set (concat (map snd intents_init)). \<not> keyword_overlap ''xyzzy plugh'' kw"
  by code_simp

lemma xyzzy_cleaned: "preprocessMessage ''xyzzy plugh'' = ''xyzzy plugh''"
  by code_simp

lemma xyzzy_entities: "extract_entities ''xyzzy plugh'' = []"
  by code_simp

lemma xyzzy_name:
  "\<exists>i. classify intents_init ''xyzzy plugh'' = Inr i \<and> name i = ''unknown''"
proof -
  have ne: "intents_init \<noteq> []" by (simp add: intents_init_def)
  have sc: "all_scores intents_init ''xyzzy plugh'' = map (\<lambda>entry. (fst entry, 0)) intents_init"
    using xyzzy_no_overlap by (intro no_overlap_all_scores) auto
  obtain best where b: "bestIntent (all_scores intents_init ''xyzzy plugh'') = Inr best"
      "best \<in> set (all_scores intents_init ''xyzzy plugh'')"
    using bestIntent_max[OF all_scores_not_Nil[OF ne, of "''xyzzy plugh''"]] by blast
  have "snd best = 0" using b(2) unfolding sc by auto
  then show ?thesis using b(1) by (simp add: classify_def Let_def)
qed

lemma storeConversation_memory:
  "contextMemory (storeConversation self userMessage botResponse intent sessionId now) = contextMemory self"
  by (simp add: storeConversation_def updateLearningModel_def Let_def)

lemma sample_cleaned:
  "preprocessMessage ''Calculate emissions for 50,000 kWh'' = ''calculate emissions for 50 000 kwh''"
  by code_simp

lemma sample_entities:
  "extract_entities ''calculate emissions for 50 000 kwh''
     = [\<lparr>type = ''energy'', value = ''000'', entity_confidence = 9 / 10\<rparr>]"
  by code_simp

lemma sample_entities_original:
  "extract_entities ''Calculate emissions for 50,000 kWh''
     = [\<lparr>type = ''energy'', value = ''50,000'', entity_confidence = 9 / 10\<rparr>]"
  by code_simp

text \<open>
  The utterance \<^verbatim>\<open>hello  there\<close>, with two spaces, has the two white-space tokens
  \<^verbatim>\<open>hello\<close> and \<^verbatim>\<open>there\<close>, but \<^verbatim>\<open>split(' ')\<close> gives three tokens, the
  override for short greetings does not apply, and the confidence is 0.7.
\<close>

theorem classify_double_space_counterexample:
  "whitespace_tokens (trim (toLowerCase ''hello  there'')) = [''hello'', ''there'']
   \<and> classify intents_init ''hello  there'' =
       Inr \<lparr>name = ''greeting'', confidence = 7 / 10,
            scores =
              [(''greeting'', 4), (''goodbye'', 0), (''basic_concepts'', 0),
               (''calculator_usage'', 0), (''industry_benchmarks'', 0),
               (''recommendations'', 0), (''advanced_analytics'', 0),
               (''ai_ml_features'', 0), (''reporting_tracking'', 0),
               (''industry_specific'', 0), (''general_info'', 0),
               (''calculate_carbon'', 0), (''get_recommendations'', 0),
               (''explain_concept'', 0), (''compliance_standards'', 0),
               (''cost_analysis'', 0), (''reduction_strategies'', 0)]\<rparr>"
  by code_simp

text \<open>
  The short greeting \<^verbatim>\<open>Hello there\<close>.
\<close>

theorem classify_short_greeting_witness:
  "length (split_space (trim (toLowerCase ''Hello there''))) \<le> 2
   \<and> hd (split_space (trim (toLowerCase ''Hello there''))) \<in> {''hello'', ''hi'', ''hey'', ''sup'', ''howdy''}
   \<and> classify intents_init ''Hello there'' =
         Inr \<lparr>name = ''greeting'', confidence = 95 / 100,
              scores = all_scores intents_init ''Hello there''\<rparr>"
proof -
  have a: "length (split_space (trim (toLowerCase ''Hello there''))) \<le> 2" by code_simp
  have b: "hd (split_space (trim (toLowerCase ''Hello there''))) \<in> {''hello'', ''hi'', ''hey'', ''sup'', ''howdy''}"
    by code_simp
  show ?thesis using a b classify_short_greeting[OF a b] by simp
qed


text \<open>
  The step function at the utterance \<^verbatim>\<open>carbon\<close>.
\<close>

theorem classify_confidence_range_witness:
  "map fst intents_init = map fst intents_init
   \<and> (\<exists>best i.
            bestIntent (all_scores intents_init ''carbon'') = Inr best
          \<and> (\<forall>e \<in> set (all_scores intents_init ''carbon''). snd e \<le> snd best)
          \<and> classify intents_init ''carbon'' = Inr i
          \<and> 2 / 10 \<le> confidence i \<and> confidence i \<le> 95 / 100
          \<and> (name i = ''unknown'' \<longleftrightarrow> snd best = 0)
          \<and> (snd best = 0 \<longrightarrow> confidence i = 2 / 10)
          \<and> (snd best \<noteq> 0 \<longrightarrow> 1 \<le> snd best \<and> 1 / 2 \<le> confidence i)
          \<and> (confidence i < 3 / 10 \<longrightarrow> snd best = 0))"
  using classify_confidence_range[of intents_init "''carbon''"] by simp

text \<open>
  Three calls of \<^verbatim>\<open>updateContext\<close> on a new session, each with seven entities of
  different types: the intent history has three entries, nothing is cut, and the entity
  history holds 21 entities.
\<close>

theorem entity_history_exceeds_20_counterexample:
  "map_sum id (length \<circ> ctx_entities)
     (updates_then_read Map.empty
        [(\<lparr>name = ''calculate_carbon'', confidence = 9 / 10, scores = []\<rparr>,
          [\<lparr>type = ''energy'', value = ''5'', entity_confidence = 9 / 10\<rparr>,
           \<lparr>type = ''fuel'', value = ''5'', entity_confidence = 9 / 10\<rparr>,
           \<lparr>type = ''employees'', value = ''5'', entity_confidence = 9 / 10\<rparr>,
           \<lparr>type = ''travel'', value = ''5'', entity_confidence = 9 / 10\<rparr>,
           \<lparr>type = ''waste'', value = ''5'', entity_confidence = 9 / 10\<rparr>,
           \<lparr>type = ''percentage'', value = ''5'', entity_confidence = 9 / 10\<rparr>,
           \<lparr>type = ''industry'', value = ''retail'', entity_confidence = 9 / 10\<rparr>]),
         (\<lparr>name = ''calculate_carbon'', confidence = 9 / 10, scores = []\<rparr>,
          [\<lparr>type = ''energy'', value = ''6'', entity_confidence = 9 / 10\<rparr>,
           \<lparr>type = ''fuel'', value = ''6'', entity_confidence = 9 / 10\<rparr>,
           \<lparr>type = ''employees'', value = ''6'', entity_confidence = 9 / 10\<rparr>,
           \<lparr>type = ''travel'', value = ''6'', entity_confidence = 9 / 10\<rparr>,
           \<lparr>type = ''waste'', value = ''6'', entity_confidence = 9 / 10\<rparr>,
           \<lparr>type = ''percentage'', value = ''6'', entity_confidence = 9 / 10\<rparr>,
           \<lparr>type = ''industry'', value = ''retail'', entity_confidence = 9 / 10\<rparr>]),
         (\<lparr>name = ''calculate_carbon'', confidence = 9 / 10, scores = []\<rparr>,
          [\<lparr>type = ''energy'', value = ''7'', entity_confidence = 9 / 10\<rparr>,
           \<lparr>type = ''fuel'', value = ''7'', entity_confidence = 9 / 10\<rparr>,
           \<lparr>type = ''employees'', value = ''7'', entity_confidence = 9 / 10\<rparr>,
           \<lparr>type = ''travel'', value = ''7'', entity_confidence = 9 / 10\<rparr>,
           \<lparr>type = ''waste'', value = ''7'', entity_confidence = 9 / 10\<rparr>,
           \<lparr>type = ''percentage'', value = ''7'', entity_confidence = 9 / 10\<rparr>,
           \<lparr>type = ''industry'', value = ''retail'', entity_confidence = 9 / 10\<rparr>])]
        ''default'')
   = Inr 21"
  by code_simp

text \<open>
  Eleven calls on the new session \<^verbatim>\<open>default\<close>, each with three entities.
\<close>

theorem updateContext_append_truncate_witness:
  "''default'' \<notin> set object_prototype_names
   \<and> replicate 11 (\<lparr>name = ''greeting'', confidence = 95 / 100, scores = []\<rparr>,
                    replicate 3 \<lparr>type = ''energy'', value = ''5'', entity_confidence = 9 / 10\<rparr>) \<noteq> []
   \<and> length (replicate 11 (\<lparr>name = ''greeting'', confidence = 95 / 100, scores = []\<rparr>,
                    replicate 3 \<lparr>type = ''energy'', value = ''5'', entity_confidence = 9 / 10\<rparr>)) > 10
   \<and> (\<exists>c. updates_then_read Map.empty
              (replicate 11 (\<lparr>name = ''greeting'', confidence = 95 / 100, scores = []\<rparr>,
                    replicate 3 \<lparr>type = ''energy'', value = ''5'', entity_confidence = 9 / 10\<rparr>))
              ''default'' = Inr c
          \<and> length (ctx_intents c) \<le> 10
          \<and> length (ctx_entities c) \<le> 20)"
proof -
  have a: "''default'' \<notin> set object_prototype_names" by (simp add: object_prototype_names_def)
  show ?thesis
    using a updateContext_append_truncate[OF a, of Map.empty
        "\<lparr>name = ''greeting'', confidence = 95 / 100, scores = []\<rparr>" "[]"
        "replicate 11 (\<lparr>name = ''greeting'', confidence = 95 / 100, scores = []\<rparr>,
                    replicate 3 \<lparr>type = ''energy'', value = ''5'', entity_confidence = 9 / 10\<rparr>)"]
    by simp
qed

text \<open>
  The entities of \<^verbatim>\<open>20 staff, 3 years\<close>.
\<close>

theorem extract_one_entity_per_type_witness:
  "extract_entities ''20 staff, 3 years'' =
     [\<lparr>type = ''employees'', value = ''20'', entity_confidence = 9 / 10\<rparr>,
      \<lparr>type = ''timeframe'', value = ''3'', entity_confidence = 9 / 10\<rparr>]
   \<and> distinct (map type (extract_entities ''20 staff, 3 years''))
   \<and> (\<exists>p. (''employees'', p) \<in> set patterns \<and> match_str p ''20 staff, 3 years'' = Some ''20'')
   \<and> (\<exists>p. (''timeframe'', p) \<in> set patterns \<and> match_str p ''20 staff, 3 years'' = Some ''3'')"
proof -
  have a: "extract_entities ''20 staff, 3 years'' =
     [\<lparr>type = ''employees'', value = ''20'', entity_confidence = 9 / 10\<rparr>,
      \<lparr>type = ''timeframe'', value = ''3'', entity_confidence = 9 / 10\<rparr>]"
    by code_simp
  have b: "distinct (map type (extract_entities ''20 staff, 3 years''))"
    and c: "\<forall>e \<in> set (extract_entities ''20 staff, 3 years'').
         entity_confidence e = 9 / 10
       \<and> (\<exists>p. (type e, p) \<in> set patterns
              \<and> match_str p ''20 staff, 3 years'' = Some (value e))"
    using extract_one_entity_per_type[of "''20 staff, 3 years''"] by blast+
  have "\<exists>p. (type e, p) \<in> set patterns \<and> match_str p ''20 staff, 3 years'' = Some (value e)"
    if "e \<in> set (extract_entities ''20 staff, 3 years'')" for e
    using c that by blast
  from this[of "\<lparr>type = ''employees'', value = ''20'', entity_confidence = 9 / 10\<rparr>"]
       this[of "\<lparr>type = ''timeframe'', value = ''3'', entity_confidence = 9 / 10\<rparr>"]
  show ?thesis using a b by simp
qed

text \<open>
  The intent \<^verbatim>\<open>unknown\<close> that \<^verbatim>\<open>classify\<close> returns for an utterance without
  keyword overlap.
\<close>

theorem generateResponse_unrouted_intent_throws_witness:
  "name \<lparr>name = ''unknown'', confidence = 2 / 10, scores = []\<rparr> \<notin> set dispatch_names
   \<and> generateResponse Map.empty \<lparr>name = ''unknown'', confidence = 2 / 10, scores = []\<rparr>
         [] ''default'' 0 = Inl TypeError"
proof -
  have a: "name \<lparr>name = ''unknown'', confidence = 2 / 10, scores = []\<rparr> \<notin> set dispatch_names"
    by (simp add: dispatch_names_def)
  show ?thesis using a generateResponse_unrouted_intent_throws[OF a] by simp
qed

text \<open>
  The handler after a carbon calculation, and on a new context.
\<close>

theorem handleRecommendations_personalized_throws_witness:
  "lastAction (new_context\<lparr>lastAction := Some ''calculate_carbon''\<rparr>) = Some ''calculate_carbon''
   \<and> handleRecommendations [] (new_context\<lparr>lastAction := Some ''calculate_carbon''\<rparr>)
       = Inl TypeError
   \<and> lastAction new_context \<noteq> Some ''calculate_carbon''
   \<and> (\<exists>r. handleRecommendations [] new_context = Inr r \<and> response_confidence r = 92 / 100)"
proof -
  have a: "lastAction (new_context\<lparr>lastAction := Some ''calculate_carbon''\<rparr>) = Some ''calculate_carbon''"
    by simp
  have b: "lastAction new_context \<noteq> Some ''calculate_carbon''"
    by (simp add: new_context_def)
  show ?thesis
    using a b
      handleRecommendations_personalized_throws[of "new_context\<lparr>lastAction := Some ''calculate_carbon''\<rparr>" "[]"]
      handleRecommendations_personalized_throws[of new_context "[]"]
    by blast
qed

text \<open>
  The message \<^verbatim>\<open>xyzzy plugh\<close> on a new chatbot: its intent is \<^verbatim>\<open>unknown\<close>,
  \<^verbatim>\<open>generateResponse\<close> throws, and the reply is the fallback response.
\<close>

theorem processMessage_catches_exceptions_witness:
  "(\<exists>e self'. try_processMessage new_chatbot ''xyzzy plugh'' ''default'' (1 / 2) ''t'' = Inl (e, self'))
   \<and> fst (processMessage new_chatbot ''xyzzy plugh'' ''default'' (1 / 2) ''t'') =
       \<lparr>response = Text ''Let me help you with carbon accounting. Try asking about calculations, recommendations, or industry standards.'',
        reply_suggestions =
          [''Calculate carbon footprint'', ''Get reduction recommendations'',
           ''Learn about standards'', ''Industry best practices''],
        reply_data = Some Null,
        reply_confidence = 5 / 10\<rparr>"
proof -
  obtain i where c: "classify intents_init ''xyzzy plugh'' = Inr i" and n: "name i = ''unknown''"
    using xyzzy_name by blast
  have u: "updateContext Map.empty i [] ''default''
             = Inr [''default'' \<mapsto> push_context new_context i []]"
    by (simp add: updateContext_def get_property_def object_prototype_names_def)
  have g: "generateResponse m i [] ''default'' (1 / 2) = Inl TypeError" for m
    using n by (simp add: generateResponse_def Let_def)
  have t: "try_processMessage new_chatbot ''xyzzy plugh'' ''default'' (1 / 2) ''t''
           = Inl (TypeError, new_chatbot\<lparr>contextMemory :=
                 [''default'' \<mapsto> push_context new_context i []]\<rparr>)"
    unfolding try_processMessage_def Let_def xyzzy_cleaned
    by (simp add: new_chatbot_def c xyzzy_entities u g)
  have f: "getFallbackResponse (1 / 2) =
       \<lparr>response = Text ''Let me help you with carbon accounting. Try asking about calculations, recommendations, or industry standards.'',
        reply_suggestions =
          [''Calculate carbon footprint'', ''Get reduction recommendations'',
           ''Learn about standards'', ''Industry best practices''],
        reply_data = Some Null,
        reply_confidence = 5 / 10\<rparr>"
    by code_simp
  show ?thesis
    using t f processMessage_catches_exceptions[OF t] by simp
qed

text \<open>
  Claim C6 at the message \<^verbatim>\<open>Calculate emissions for 50,000 kWh\<close> on a new chatbot:
  the entities are extracted from the cleaned message, in which the comma is a space, so
  the energy entity recorded for the session has the value \<^verbatim>\<open>000\<close>; the first group
  of the first match in the message as received is \<^verbatim>\<open>50,000\<close>.
\<close>

theorem processMessage_extracts_from_cleaned_message:
  "ctx_entities (context_of (contextMemory (snd
       (processMessage new_chatbot ''Calculate emissions for 50,000 kWh'' ''default'' 0 '''')))
     ''default'')
     = [\<lparr>type = ''energy'', value = ''000'', entity_confidence = 9 / 10\<rparr>]
   \<and> extract_entities ''Calculate emissions for 50,000 kWh''
     = [\<lparr>type = ''energy'', value = ''50,000'', entity_confidence = 9 / 10\<rparr>]"
proof -
  let ?es = "[\<lparr>type = ''energy'', value = ''000'', entity_confidence = 9 / 10\<rparr>]"
  have "intents_init \<noteq> []" by (simp add: intents_init_def)
  then obtain i where c: "classify intents_init ''calculate emissions for 50 000 kwh'' = Inr i"
    using classify_returns by blast
  let ?m = "[''default'' \<mapsto> push_context new_context i ?es]"
  have u: "updateContext Map.empty i ?es ''default'' = Inr ?m"
    by (simp add: updateContext_def get_property_def object_prototype_names_def)
  have r: "ctx_entities (context_of ?m ''default'') = ?es"
    by (simp add: context_of_upd push_context_def Let_def new_context_def)
  have "contextMemory (snd (processMessage new_chatbot ''Calculate emissions for 50,000 kWh'' ''default'' 0 '''')) = ?m"
    unfolding processMessage_def try_processMessage_def Let_def sample_cleaned
    by (cases "generateResponse ?m i ?es ''default'' 0")
       (simp_all add: new_chatbot_def c sample_entities u storeConversation_memory)
  then show ?thesis using r sample_entities_original by simp
qed

end
